theory Spec2Isabelle
  imports Main "HOL-Library.Word" "HOL-Library.Sublist"
begin

section \<open>Go errors and gRPC status codes\<close>

text \<open>The gRPC status codes of \<^verbatim>\<open>google.golang.org/grpc/codes\<close>.\<close>

datatype code =
    OK | Canceled | Unknown | InvalidArgument | DeadlineExceeded | NotFound
  | AlreadyExists | PermissionDenied | ResourceExhausted | FailedPrecondition
  | Aborted | OutOfRange | Unimplemented | Internal | Unavailable | DataLoss
  | Unauthenticated

text \<open>
  A Go \<^verbatim>\<open>error\<close> value that is not nil. \<^verbatim>\<open>IoEOF\<close> is the sentinel \<^verbatim>\<open>io.EOF\<close>;
  \<^verbatim>\<open>ErrInvalidArgs\<close>, \<^verbatim>\<open>ErrCACert\<close> and \<^verbatim>\<open>ErrCancelled\<close> are the sentinels of
  package iterator; \<^verbatim>\<open>StatusError c m\<close> is what \<^verbatim>\<open>status.Errorf(c, ...)\<close> builds, with the
  formatted message \<^verbatim>\<open>m\<close>; \<^verbatim>\<open>OtherError t\<close> is any other error, with its text;
  \<^verbatim>\<open>Errorf pre e post\<close> is \<^verbatim>\<open>fmt.Errorf\<close> with one \<^verbatim>\<open>%w\<close> verb wrapping \<^verbatim>\<open>e\<close> between
  the texts \<^verbatim>\<open>pre\<close> and \<^verbatim>\<open>post\<close>. A nil error is \<^verbatim>\<open>None\<close> of \<^verbatim>\<open>go_error option\<close>.
\<close>

datatype go_error =
    IoEOF
  | ErrInvalidArgs
  | ErrCACert
  | ErrCancelled
  | StatusError code string
  | OtherError string
  | Errorf string go_error string

text \<open>The text \<^verbatim>\<open>c.String()\<close> of a status code, as grpc prints it.\<close>

fun codeString :: "code \<Rightarrow> string" where
  "codeString OK = ''OK''"
| "codeString Canceled = ''Canceled''"
| "codeString Unknown = ''Unknown''"
| "codeString InvalidArgument = ''InvalidArgument''"
| "codeString DeadlineExceeded = ''DeadlineExceeded''"
| "codeString NotFound = ''NotFound''"
| "codeString AlreadyExists = ''AlreadyExists''"
| "codeString PermissionDenied = ''PermissionDenied''"
| "codeString ResourceExhausted = ''ResourceExhausted''"
| "codeString FailedPrecondition = ''FailedPrecondition''"
| "codeString Aborted = ''Aborted''"
| "codeString OutOfRange = ''OutOfRange''"
| "codeString Unimplemented = ''Unimplemented''"
| "codeString Internal = ''Internal''"
| "codeString Unavailable = ''Unavailable''"
| "codeString DataLoss = ''DataLoss''"
| "codeString Unauthenticated = ''Unauthenticated''"

text \<open>The text \<^verbatim>\<open>err.Error()\<close>, which is what the verb \<^verbatim>\<open>%v\<close> prints for an error.\<close>

fun Error :: "go_error \<Rightarrow> string" where
  "Error IoEOF = ''EOF''"
| "Error ErrInvalidArgs = ''invalid argument''"
| "Error ErrCACert = ''failed to add the SnapshotMetadataService CR CA certificate''"
| "Error ErrCancelled = ''enumeration cancelled''"
| "Error (StatusError c m) = ''rpc error: code = '' @ codeString c @ '' desc = '' @ m"
| "Error (OtherError t) = t"
| "Error (Errorf pre e post) = pre @ Error e @ post"

text \<open>
  A receiving gRPC stream, seen from the side that calls \<^verbatim>\<open>Recv\<close>: the messages still to
  come, and the error that ends them (\<^verbatim>\<open>io.EOF\<close> after a clean close). \<^verbatim>\<open>Recv\<close> returns
  the next message, or the final error.
\<close>

datatype 'r stream = StreamEnd go_error | StreamMsg 'r "'r stream"

fun Recv :: "'r stream \<Rightarrow> (go_error + 'r) \<times> 'r stream" where
  "Recv (StreamEnd err) = (Inl err, StreamEnd err)"
| "Recv (StreamMsg r rest) = (Inr r, rest)"

text \<open>The stream that yields the messages \<^verbatim>\<open>rs\<close> in order and then ends with \<^verbatim>\<open>err\<close>.\<close>

fun streamOf :: "'r list \<Rightarrow> go_error \<Rightarrow> 'r stream" where
  "streamOf [] err = StreamEnd err"
| "streamOf (r # rs) err = StreamMsg r (streamOf rs err)"

text \<open>
  The first check that is violated, in the order the checks are listed: each check is a
  pair of "is violated" and what is reported for it.
\<close>

definition firstViolation :: "(bool \<times> 'a) list \<Rightarrow> 'a option" where
  "firstViolation checks = map_option snd (find fst checks)"

section \<open>Packages api and csi: the messages\<close>

type_synonym int64 = "64 word"
type_synonym int32 = "32 word"
type_synonym byte = "8 word"

text \<open>
  The two enumerations are distinct Go types over \<^verbatim>\<open>int32\<close>; protobuf enumerations are
  open, so every \<^verbatim>\<open>int32\<close> is a value. \<^verbatim>\<open>FIXED_LENGTH\<close> is 1 and \<^verbatim>\<open>VARIABLE_LENGTH\<close> is 2.
\<close>

datatype BlockMetadataType = BlockMetadataType_value int32
datatype csi_BlockMetadataType = csi_BlockMetadataType_value int32

definition BlockMetadataType_FIXED_LENGTH :: BlockMetadataType where
  "BlockMetadataType_FIXED_LENGTH = BlockMetadataType_value 1"

definition csi_BlockMetadataType_FIXED_LENGTH :: csi_BlockMetadataType where
  "csi_BlockMetadataType_FIXED_LENGTH = csi_BlockMetadataType_value 1"

record BlockMetadata =
  ByteOffset :: int64
  SizeBytes :: int64

record csi_BlockMetadata =
  csi_ByteOffset :: int64
  csi_SizeBytes :: int64

text \<open>
  \<^verbatim>\<open>api.GetMetadataAllocatedResponse\<close> and \<^verbatim>\<open>api.GetMetadataDeltaResponse\<close> have the same
  three fields; one record stands for both.
\<close>

record GetMetadataAllocatedResponse =
  api_BlockMetadataType :: BlockMetadataType
  api_VolumeCapacityBytes :: int64
  api_BlockMetadata :: "BlockMetadata list"

type_synonym GetMetadataDeltaResponse = GetMetadataAllocatedResponse

record csi_GetMetadataAllocatedResponse =
  csi_BlockMetadataType :: csi_BlockMetadataType
  csi_VolumeCapacityBytes :: int64
  csi_BlockMetadata :: "csi_BlockMetadata list"

record GetMetadataAllocatedRequest =
  SecurityToken :: string
  api_Namespace :: string
  api_SnapshotName :: string
  api_StartingOffset :: int64
  api_MaxResults :: int32

record GetMetadataDeltaRequest =
  delta_SecurityToken :: string
  delta_Namespace :: string
  BaseSnapshotName :: string
  TargetSnapshotName :: string
  delta_StartingOffset :: int64
  delta_MaxResults :: int32

record csi_GetMetadataAllocatedRequest =
  SnapshotId :: string
  csi_StartingOffset :: int64
  csi_MaxResults :: int32
  Secrets :: "string \<rightharpoonup> string"

record csi_GetMetadataDeltaRequest =
  BaseSnapshotId :: string
  TargetSnapshotId :: string
  csi_delta_StartingOffset :: int64
  csi_delta_MaxResults :: int32
  csi_delta_Secrets :: "string \<rightharpoonup> string"

section \<open>Package iterator\<close>

subsection \<open>Arguments and their validation\<close>

record IteratorMetadata =
  BlockMetadataType :: BlockMetadataType
  VolumeCapacityBytes :: int64
  BlockMetadata :: "BlockMetadata list"

text \<open>
  The interface \<^verbatim>\<open>IteratorEmitter\<close>. An emitter is an object with a state of its own, of
  type \<^verbatim>\<open>'e\<close>; each operation returns nil or an error, and the emitter's next state.
\<close>

record 'e IteratorEmitter =
  SnapshotMetadataIteratorRecord :: "'e \<Rightarrow> int \<Rightarrow> IteratorMetadata \<Rightarrow> go_error option \<times> 'e"
  SnapshotMetadataIteratorDone :: "'e \<Rightarrow> int \<Rightarrow> go_error option \<times> 'e"

text \<open>
  The objects the Kubernetes clients return, with the fields the iterator reads. A nil
  pointer is \<^verbatim>\<open>None\<close>.
\<close>

record VolumeSnapshotStatus =
  BoundVolumeSnapshotContentName :: "string option"

record VolumeSnapshot =
  vs_Namespace :: string
  vs_Name :: string
  vs_Status :: "VolumeSnapshotStatus option"

record VolumeSnapshotContent =
  vsc_Spec_Driver :: string

record SnapshotMetadataService =
  Spec_Audience :: string
  Spec_CACert :: "byte list"
  Spec_Address :: string

text \<open>
  The struct \<^verbatim>\<open>Clients\<close> holds the three client interfaces; it is declared in another
  file. Here it is what the calls the iterator makes through them return: the cluster as
  the iterator sees it during one run.
\<close>

record Clients =
  SelfSubjectReviews_Create :: "go_error + string"
  VolumeSnapshots_Get :: "string \<Rightarrow> string \<Rightarrow> go_error + VolumeSnapshot"
  VolumeSnapshotContents_Get :: "string \<Rightarrow> go_error + VolumeSnapshotContent"
  SnapshotMetadataServices_Get :: "string \<Rightarrow> go_error + SnapshotMetadataService"
  ServiceAccounts_CreateToken :: "string \<Rightarrow> string \<Rightarrow> string \<Rightarrow> int64 \<Rightarrow> go_error + string"

text \<open>\<^verbatim>\<open>iterator.Args\<close>. \<^verbatim>\<open>Emitter\<close> is an interface value: \<^verbatim>\<open>None\<close> is nil.\<close>

record 'e Args =
  Clients :: Clients
  Emitter :: "'e IteratorEmitter option"
  Namespace :: string
  SnapshotName :: string
  PrevSnapshotName :: string
  StartingOffset :: int64
  MaxResults :: int32
  CSIDriver :: string
  SANamespace :: string
  SAName :: string
  TokenExpirySecs :: int64

text \<open>
  \<^verbatim>\<open>Args.Validate\<close> (iter.go, lines 114-137). The switch takes the first case that holds,
  in the order written. \<^verbatim>\<open>Clients.Validate\<close> is declared in another file: its result is
  the parameter \<^verbatim>\<open>clientsValidate\<close>.
\<close>

definition Validate :: "(Clients \<Rightarrow> go_error option) \<Rightarrow> 'e Args \<Rightarrow> go_error option" where
  "Validate clientsValidate a =
     (if Emitter a = None then Some (Errorf [] ErrInvalidArgs '': missing Emitter'')
      else if Namespace a = [] then Some (Errorf [] ErrInvalidArgs '': missing Namespace'')
      else if SnapshotName a = [] then Some (Errorf [] ErrInvalidArgs '': missing SnapshotName'')
      else if TokenExpirySecs a <s 0 then Some (Errorf [] ErrInvalidArgs '': invalid TokenExpirySecs'')
      else if MaxResults a <s 0 then Some (Errorf [] ErrInvalidArgs '': invalid MaxResults'')
      else if SANamespace a = [] \<and> SAName a \<noteq> []
        then Some (Errorf [] ErrInvalidArgs '': SAName provided but SANamespace missing'')
      else if SANamespace a \<noteq> [] \<and> SAName a = []
        then Some (Errorf [] ErrInvalidArgs '': SANamespace provided but SAName missing'')
      else clientsValidate (Clients a))"

subsection \<open>The iterator\<close>

text \<open>
  The struct \<^verbatim>\<open>Iterator\<close> embeds \<^verbatim>\<open>Args\<close> and adds the counter \<^verbatim>\<open>recordNum\<close> (a Go
  \<^verbatim>\<open>int\<close>; it is modelled unbounded, a run would need \<^verbatim>\<open>2^63\<close> records to wrap it). The
  field \<^verbatim>\<open>h\<close> is the iterator itself (\<^verbatim>\<open>iter.h = iter\<close> in \<^verbatim>\<open>NewIterator\<close>), so the
  helper calls of \<^verbatim>\<open>Run\<close> are calls of the functions below.
\<close>

record 'e Iterator = "'e Args" +
  recordNum :: int

definition DefaultTokenExpirySeconds :: int64 where
  "DefaultTokenExpirySeconds = 600"

definition K8sServiceAccountUserNamePrefix :: string where
  "K8sServiceAccountUserNamePrefix = ''system:serviceaccount:''"

definition NewIterator :: "'e Args \<Rightarrow> 'e Iterator" where
  "NewIterator args =
     (let iter = Args.extend args (Iterator.fields 0)
      in if TokenExpirySecs iter = 0
         then iter\<lparr>TokenExpirySecs := DefaultTokenExpirySeconds\<rparr>
         else iter)"

text \<open>\<^verbatim>\<open>strings.HasPrefix\<close>, and \<^verbatim>\<open>strings.Split\<close> for a separator of one character.\<close>

definition strings_HasPrefix :: "string \<Rightarrow> string \<Rightarrow> bool" where
  "strings_HasPrefix s pre = (take (length pre) s = pre)"

fun strings_Split :: "string \<Rightarrow> char \<Rightarrow> string list" where
  "strings_Split [] sep = [[]]"
| "strings_Split (c # cs) sep =
     (if c = sep then [] # strings_Split cs sep
      else (case strings_Split cs sep of
              [] \<Rightarrow> [[c]]
            | f # fs \<Rightarrow> (c # f) # fs))"

text \<open>
  What lies behind the gRPC connection: the certificate parser, the dialer, and the
  snapshot metadata service reached at an address, which answers a call with an error or
  with a stream of responses.
\<close>

datatype SnapshotMetadataClient = SnapshotMetadataClient string

record GRPC =
  AppendCertsFromPEM :: "byte list \<Rightarrow> bool"
  grpc_NewClient :: "string \<Rightarrow> go_error option"
  client_GetMetadataAllocated ::
    "SnapshotMetadataClient \<Rightarrow> GetMetadataAllocatedRequest
       \<Rightarrow> go_error + GetMetadataAllocatedResponse stream"
  client_GetMetadataDelta ::
    "SnapshotMetadataClient \<Rightarrow> GetMetadataDeltaRequest
       \<Rightarrow> go_error + GetMetadataDeltaResponse stream"

text \<open>
  Everything the iterator does to the outside, in the order it does it: the calls to the
  cluster, to the gRPC service and to the emitter, each with its arguments (and, for the
  stream and the emitter, with what came back).
\<close>

datatype iter_event =
    SelfSubjectReviewCreate
  | VolumeSnapshotGet string string
  | VolumeSnapshotContentGet string
  | SnapshotMetadataServiceGet string
  | CreateToken string string string int64
  | GRPCNewClient string
  | CallGetMetadataAllocated GetMetadataAllocatedRequest
  | CallGetMetadataDelta GetMetadataDeltaRequest
  | StreamRecv "go_error + GetMetadataAllocatedResponse"
  | EmitRecord int IteratorMetadata "go_error option"
  | EmitDone int "go_error option"

text \<open>A call either returns its error value (\<^verbatim>\<open>None\<close> is nil) or panics.\<close>

datatype go_result = Panicked | Returned "go_error option"

definition getDefaultServiceAccount ::
  "'e Iterator \<Rightarrow> (go_error + string \<times> string) \<times> iter_event list" where
  "getDefaultServiceAccount iter =
     (case SelfSubjectReviews_Create (Clients iter) of
        Inl err \<Rightarrow> (Inl (Errorf ''SelfSubjectReviews.Create(): '' err []), [SelfSubjectReviewCreate])
      | Inr username \<Rightarrow>
          (let fields = strings_Split username (CHR '':'')
           in if strings_HasPrefix username K8sServiceAccountUserNamePrefix \<and> length fields = 4
              then (Inr (fields ! 2, fields ! 3), [SelfSubjectReviewCreate])
              else (Inl (Errorf [] ErrInvalidArgs
                      '': ServiceAccount unspecified and default cannot be determined''),
                    [SelfSubjectReviewCreate])))"

definition getCSIDriverFromPrimarySnapshot ::
  "'e Iterator \<Rightarrow> (go_error + string) \<times> iter_event list" where
  "getCSIDriverFromPrimarySnapshot iter =
     (case VolumeSnapshots_Get (Clients iter) (Namespace iter) (SnapshotName iter) of
        Inl err \<Rightarrow>
          (Inl (Errorf (''VolumeSnapshots.Get('' @ Namespace iter @ ''/'' @ SnapshotName iter @ ''): '')
                  err []),
           [VolumeSnapshotGet (Namespace iter) (SnapshotName iter)])
      | Inr vs \<Rightarrow>
          (case (case vs_Status vs of None \<Rightarrow> None
                 | Some st \<Rightarrow> BoundVolumeSnapshotContentName st) of
             None \<Rightarrow>
               (Inl (OtherError (''VolumeSnapshot('' @ vs_Namespace vs @ ''/'' @ vs_Name vs
                                  @ '') has no bound VolumeSnapshotContent'')),
                [VolumeSnapshotGet (Namespace iter) (SnapshotName iter)])
           | Some contentName \<Rightarrow>
               (case VolumeSnapshotContents_Get (Clients iter) contentName of
                  Inl err \<Rightarrow>
                    (Inl (Errorf (''VolumeSnapshotContents.Get('' @ contentName
                                   @ '') for VolumeSnapshot('' @ vs_Namespace vs @ ''/''
                                   @ vs_Name vs @ ''): '') err []),
                     [VolumeSnapshotGet (Namespace iter) (SnapshotName iter),
                      VolumeSnapshotContentGet contentName])
                | Inr vsc \<Rightarrow>
                    (Inr (vsc_Spec_Driver vsc),
                     [VolumeSnapshotGet (Namespace iter) (SnapshotName iter),
                      VolumeSnapshotContentGet contentName]))))"

definition getSnapshotMetadataServiceCR ::
  "'e Iterator \<Rightarrow> string \<Rightarrow> (go_error + SnapshotMetadataService) \<times> iter_event list" where
  "getSnapshotMetadataServiceCR iter csiDriver =
     (case SnapshotMetadataServices_Get (Clients iter) csiDriver of
        Inl err \<Rightarrow>
          (Inl (Errorf (''SnapshotMetadataServices.Get('' @ csiDriver @ ''): '') err []),
           [SnapshotMetadataServiceGet csiDriver])
      | Inr sms \<Rightarrow> (Inr sms, [SnapshotMetadataServiceGet csiDriver]))"

definition createSecurityToken ::
  "'e Iterator \<Rightarrow> string \<Rightarrow> string \<Rightarrow> string \<Rightarrow> (go_error + string) \<times> iter_event list" where
  "createSecurityToken iter saNamespace sa audience =
     (case ServiceAccounts_CreateToken (Clients iter) saNamespace sa audience (TokenExpirySecs iter) of
        Inl err \<Rightarrow>
          (Inl (OtherError (''ServiceAccounts.CreateToken('' @ saNamespace @ ''/'' @ sa @ ''): ''
                             @ Error err)),
           [CreateToken saNamespace sa audience (TokenExpirySecs iter)])
      | Inr token \<Rightarrow> (Inr token, [CreateToken saNamespace sa audience (TokenExpirySecs iter)]))"

definition getGRPCClient ::
  "GRPC \<Rightarrow> byte list \<Rightarrow> string \<Rightarrow> (go_error + SnapshotMetadataClient) \<times> iter_event list" where
  "getGRPCClient g caCert url =
     (if \<not> AppendCertsFromPEM g caCert then (Inl ErrCACert, [])
      else (case grpc_NewClient g url of
              Some err \<Rightarrow> (Inl (Errorf (''grpc.NewClient('' @ url @ ''): '') err []), [GRPCNewClient url])
            | None \<Rightarrow> (Inr (SnapshotMetadataClient url), [GRPCNewClient url])))"

text \<open>
  The receive loop of \<^verbatim>\<open>getAllocatedBlocks\<close> (iter.go, lines 340-360). The two equations
  are the two results of \<^verbatim>\<open>stream.Recv()\<close>: the final error, or a response. The call of
  the emitter's method panics when \<^verbatim>\<open>Emitter\<close> is nil. The result carries the iterator
  (its \<^verbatim>\<open>recordNum\<close> is updated in place) and the emitter's state.
\<close>

fun getAllocatedBlocks_loop ::
  "'e Iterator \<Rightarrow> 'e \<Rightarrow> GetMetadataAllocatedResponse stream
     \<Rightarrow> go_result \<times> iter_event list \<times> 'e Iterator \<times> 'e" where
  "getAllocatedBlocks_loop iter st (StreamEnd err) =
     (if err = IoEOF then (Returned None, [StreamRecv (Inl err)], iter, st)
      else (Returned (Some (Errorf (''GetMetadataAllocated('' @ Namespace iter @ '','' @ SnapshotName iter
                                     @ '').Recv: '') err [])),
            [StreamRecv (Inl err)], iter, st))"
| "getAllocatedBlocks_loop iter st (StreamMsg resp rest) =
     (let iter1 = iter\<lparr>recordNum := recordNum iter + 1\<rparr>;
          md = \<lparr>BlockMetadataType = api_BlockMetadataType resp,
                VolumeCapacityBytes = api_VolumeCapacityBytes resp,
                BlockMetadata = api_BlockMetadata resp\<rparr>
      in case Emitter iter1 of
           None \<Rightarrow> (Panicked, [StreamRecv (Inr resp)], iter1, st)
         | Some em \<Rightarrow>
             (case SnapshotMetadataIteratorRecord em st (recordNum iter1) md of
                (Some err, st1) \<Rightarrow>
                  (Returned (Some err),
                   [StreamRecv (Inr resp), EmitRecord (recordNum iter1) md (Some err)], iter1, st1)
              | (None, st1) \<Rightarrow>
                  (case getAllocatedBlocks_loop iter1 st1 rest of
                     (res, evs, iter2, st2) \<Rightarrow>
                       (res, StreamRecv (Inr resp) # EmitRecord (recordNum iter1) md None # evs,
                        iter2, st2))))"

definition getAllocatedBlocks ::
  "GRPC \<Rightarrow> 'e Iterator \<Rightarrow> 'e \<Rightarrow> SnapshotMetadataClient \<Rightarrow> string
     \<Rightarrow> go_result \<times> iter_event list \<times> 'e Iterator \<times> 'e" where
  "getAllocatedBlocks g iter st grpcClient securityToken =
     (let req = \<lparr>SecurityToken = securityToken, api_Namespace = Namespace iter,
                 api_SnapshotName = SnapshotName iter, api_StartingOffset = StartingOffset iter,
                 api_MaxResults = MaxResults iter\<rparr>
      in case client_GetMetadataAllocated g grpcClient req of
           Inl err \<Rightarrow>
             (Returned (Some (Errorf (''GetMetadataAllocated('' @ Namespace iter @ '',''
                                       @ SnapshotName iter @ ''): '') err [])),
              [CallGetMetadataAllocated req], iter, st)
         | Inr stream \<Rightarrow>
             (case getAllocatedBlocks_loop iter st stream of
                (res, evs, iter1, st1) \<Rightarrow> (res, CallGetMetadataAllocated req # evs, iter1, st1)))"

text \<open>The receive loop of \<^verbatim>\<open>getChangedBlocks\<close> (iter.go, lines 376-396).\<close>

fun getChangedBlocks_loop ::
  "'e Iterator \<Rightarrow> 'e \<Rightarrow> GetMetadataDeltaResponse stream
     \<Rightarrow> go_result \<times> iter_event list \<times> 'e Iterator \<times> 'e" where
  "getChangedBlocks_loop iter st (StreamEnd err) =
     (if err = IoEOF then (Returned None, [StreamRecv (Inl err)], iter, st)
      else (Returned (Some (Errorf (''GetMetadataDelta('' @ Namespace iter @ '','' @ PrevSnapshotName iter
                                     @ '','' @ SnapshotName iter @ '').Recv: '') err [])),
            [StreamRecv (Inl err)], iter, st))"
| "getChangedBlocks_loop iter st (StreamMsg resp rest) =
     (let iter1 = iter\<lparr>recordNum := recordNum iter + 1\<rparr>;
          md = \<lparr>BlockMetadataType = api_BlockMetadataType resp,
                VolumeCapacityBytes = api_VolumeCapacityBytes resp,
                BlockMetadata = api_BlockMetadata resp\<rparr>
      in case Emitter iter1 of
           None \<Rightarrow> (Panicked, [StreamRecv (Inr resp)], iter1, st)
         | Some em \<Rightarrow>
             (case SnapshotMetadataIteratorRecord em st (recordNum iter1) md of
                (Some err, st1) \<Rightarrow>
                  (Returned (Some err),
                   [StreamRecv (Inr resp), EmitRecord (recordNum iter1) md (Some err)], iter1, st1)
              | (None, st1) \<Rightarrow>
                  (case getChangedBlocks_loop iter1 st1 rest of
                     (res, evs, iter2, st2) \<Rightarrow>
                       (res, StreamRecv (Inr resp) # EmitRecord (recordNum iter1) md None # evs,
                        iter2, st2))))"

definition getChangedBlocks ::
  "GRPC \<Rightarrow> 'e Iterator \<Rightarrow> 'e \<Rightarrow> SnapshotMetadataClient \<Rightarrow> string
     \<Rightarrow> go_result \<times> iter_event list \<times> 'e Iterator \<times> 'e" where
  "getChangedBlocks g iter st grpcClient securityToken =
     (let req = \<lparr>delta_SecurityToken = securityToken, delta_Namespace = Namespace iter,
                 BaseSnapshotName = PrevSnapshotName iter, TargetSnapshotName = SnapshotName iter,
                 delta_StartingOffset = StartingOffset iter, delta_MaxResults = MaxResults iter\<rparr>
      in case client_GetMetadataDelta g grpcClient req of
           Inl err \<Rightarrow>
             (Returned (Some (Errorf (''GetMetadataDelta('' @ Namespace iter @ '',''
                                       @ PrevSnapshotName iter @ '','' @ SnapshotName iter @ ''): '')
                                err [])),
              [CallGetMetadataDelta req], iter, st)
         | Inr stream \<Rightarrow>
             (case getChangedBlocks_loop iter st stream of
                (res, evs, iter1, st1) \<Rightarrow> (res, CallGetMetadataDelta req # evs, iter1, st1)))"

text \<open>
  The last part of \<^verbatim>\<open>Run\<close> (iter.go, lines 235-244): one of the two streaming calls, and
  after a nil result the emitter's \<^verbatim>\<open>SnapshotMetadataIteratorDone\<close>.
\<close>

definition Run_stream ::
  "GRPC \<Rightarrow> 'e Iterator \<Rightarrow> 'e \<Rightarrow> SnapshotMetadataClient \<Rightarrow> string
     \<Rightarrow> go_result \<times> iter_event list \<times> 'e Iterator \<times> 'e" where
  "Run_stream g iter st apiClient securityToken =
     (case (if PrevSnapshotName iter = []
            then getAllocatedBlocks g iter st apiClient securityToken
            else getChangedBlocks g iter st apiClient securityToken) of
        (Panicked, evs, iter1, st1) \<Rightarrow> (Panicked, evs, iter1, st1)
      | (Returned (Some err), evs, iter1, st1) \<Rightarrow> (Returned (Some err), evs, iter1, st1)
      | (Returned None, evs, iter1, st1) \<Rightarrow>
          (case Emitter iter1 of
             None \<Rightarrow> (Panicked, evs, iter1, st1)
           | Some em \<Rightarrow>
               (case SnapshotMetadataIteratorDone em st1 (recordNum iter1) of
                  (res, st2) \<Rightarrow>
                    (Returned res, evs @ [EmitDone (recordNum iter1) res], iter1, st2))))"

text \<open>
  \<^verbatim>\<open>Iterator.Run\<close> (iter.go, lines 193-245). Each helper returns its result and the
  calls it made; an error ends the run with the calls made so far.
\<close>

definition Run ::
  "GRPC \<Rightarrow> 'e Iterator \<Rightarrow> 'e \<Rightarrow> go_result \<times> iter_event list \<times> 'e Iterator \<times> 'e" where
  "Run g iter st =
     (case (if SAName iter = [] then getDefaultServiceAccount iter
            else (Inr (SANamespace iter, SAName iter), [])) of
        (Inl err, evs1) \<Rightarrow> (Returned (Some err), evs1, iter, st)
      | (Inr (saNamespace, saName), evs1) \<Rightarrow>
     (case (if CSIDriver iter = [] then getCSIDriverFromPrimarySnapshot iter
            else (Inr (CSIDriver iter), [])) of
        (Inl err, evs2) \<Rightarrow> (Returned (Some err), evs1 @ evs2, iter, st)
      | (Inr csiDriver, evs2) \<Rightarrow>
     (case getSnapshotMetadataServiceCR iter csiDriver of
        (Inl err, evs3) \<Rightarrow> (Returned (Some err), evs1 @ evs2 @ evs3, iter, st)
      | (Inr smsCR, evs3) \<Rightarrow>
     (case createSecurityToken iter saNamespace saName (Spec_Audience smsCR) of
        (Inl err, evs4) \<Rightarrow> (Returned (Some err), evs1 @ evs2 @ evs3 @ evs4, iter, st)
      | (Inr securityToken, evs4) \<Rightarrow>
     (case getGRPCClient g (Spec_CACert smsCR) (Spec_Address smsCR) of
        (Inl err, evs5) \<Rightarrow> (Returned (Some err), evs1 @ evs2 @ evs3 @ evs4 @ evs5, iter, st)
      | (Inr apiClient, evs5) \<Rightarrow>
     (case Run_stream g iter st apiClient securityToken of
        (res, evs6, iter1, st1) \<Rightarrow>
          (res, evs1 @ evs2 @ evs3 @ evs4 @ evs5 @ evs6, iter1, st1)))))))"

text \<open>
  \<^verbatim>\<open>GetSnapshotMetadata\<close> (iter.go, lines 60-66): validation, then a run of a new iterator.
\<close>

definition GetSnapshotMetadata ::
  "(Clients \<Rightarrow> go_error option) \<Rightarrow> GRPC \<Rightarrow> 'e Args \<Rightarrow> 'e \<Rightarrow> go_result \<times> iter_event list \<times> 'e" where
  "GetSnapshotMetadata clientsValidate g args st =
     (case Validate clientsValidate args of
        Some err \<Rightarrow> (Returned (Some err), [], st)
      | None \<Rightarrow> (case Run g (NewIterator args) st of (res, evs, iter, st1) \<Rightarrow> (res, evs, st1)))"

section \<open>Package grpc: the GetMetadataAllocated handler\<close>

text \<open>
  The message constants of the package are declared in another file. The functions below
  take them as the parameter \<^verbatim>\<open>M\<close>, so what is proved holds for any texts. A constant
  whose name ends in \<^verbatim>\<open>Fmt\<close> is a format string: \<^verbatim>\<open>msgInvalidArgumentSnaphotDriverInvalidFmt\<close>
  is given by the text it formats to for its two string arguments. The constants without
  verbs are used as the format of \<^verbatim>\<open>status.Errorf\<close> with no argument, which prints them
  as they are (the tests compare \<^verbatim>\<open>st.Message()\<close> with the constant).
\<close>

record messages =
  msgInvalidArgumentSecurityTokenMissing :: string
  msgInvalidArgumentNamespaceMissing :: string
  msgInvalidArgumentSnaphotNameMissing :: string
  msgInvalidArgumentBaseSnapshotNameMissing :: string
  msgInvalidArgumentTargetSnapshotNameMissing :: string
  msgInvalidArgumentSnaphotDriverInvalidFmt :: "string \<Rightarrow> string \<Rightarrow> string"
  msgInvalidArgumentDiffSnapshotSourceVolumes :: string
  msgUnavailableCSIDriverNotReady :: string
  msgInternalFailedCSIDriverResponse :: string
  msgInternalFailedToSendResponse :: string

text \<open>
  Modelled from the spec: the two format constants of the \<^verbatim>\<open>Internal\<close> errors are declared
  outside the source files at hand. The spec (4.4, 4.6, 8 scenario 4) and the tests say
  that the message starts with the fixed stem and carries the wrapped error; the
  argument is the text of that error.
\<close>

definition msgInternalFailedCSIDriverResponseFmt :: "messages \<Rightarrow> string \<Rightarrow> string" where
  "msgInternalFailedCSIDriverResponseFmt M errText = msgInternalFailedCSIDriverResponse M @ '': '' @ errText"

definition msgInternalFailedtoSendResponseFmt :: "messages \<Rightarrow> string \<Rightarrow> string" where
  "msgInternalFailedtoSendResponseFmt M errText = msgInternalFailedToSendResponse M @ '': '' @ errText"

text \<open>
  Modelled from the spec: \<^verbatim>\<open>statusPassOrWrapError\<close> is declared outside the source files
  at hand. The spec (4.4, stream translation contract): a structured status error is
  propagated unchanged, any other error is wrapped in a status of the given code, with
  the formatted message. \<^verbatim>\<open>isStatusError\<close> is the test of \<^verbatim>\<open>status.FromError\<close>.
\<close>

fun isStatusError :: "go_error \<Rightarrow> bool" where
  "isStatusError (StatusError c m) = True"
| "isStatusError e = False"

definition statusPassOrWrapError :: "go_error \<Rightarrow> code \<Rightarrow> string \<Rightarrow> go_error" where
  "statusPassOrWrapError err c msg = (if isStatusError err then err else StatusError c msg)"

text \<open>
  The struct \<^verbatim>\<open>volSnapshotInfo\<close> is declared in another file. \<^verbatim>\<open>DriverName\<close> and
  \<^verbatim>\<open>SnapshotHandle\<close> are the fields the handler reads; \<^verbatim>\<open>SourceVolume\<close> is the source claim
  of the snapshot, which the spec (3, 4.1) compares for a Delta request.
\<close>

record volSnapshotInfo =
  DriverName :: string
  SnapshotHandle :: string
  SourceVolume :: string

text \<open>
  The receiver \<^verbatim>\<open>s\<close>. Its methods \<^verbatim>\<open>authenticateAndAuthorize\<close>, \<^verbatim>\<open>getVolSnapshotInfo\<close> and
  \<^verbatim>\<open>getSnapshotterCredentials\<close> are declared in other files and call the cluster; the
  driver is reached through \<^verbatim>\<open>s.csiConnection()\<close>. Each is given by what the call returns
  during the request. \<^verbatim>\<open>isReady\<close> is the readiness flag of the driver connection.
\<close>

record Server =
  driverName :: string
  isReady :: bool
  authenticateAndAuthorize :: "string \<Rightarrow> string \<Rightarrow> go_error option"
  getVolSnapshotInfo :: "string \<Rightarrow> string \<Rightarrow> go_error + volSnapshotInfo"
  getSnapshotterCredentials :: "volSnapshotInfo \<Rightarrow> go_error + (string \<rightharpoonup> string)"
  csi_GetMetadataAllocated ::
    "csi_GetMetadataAllocatedRequest \<Rightarrow> go_error + csi_GetMetadataAllocatedResponse stream"

text \<open>
  The calls a handler makes to the cluster, to the driver and to the caller's stream, in
  the order it makes them.
\<close>

datatype event =
    AuthenticateAndAuthorize string string
  | GetVolSnapshotInfo string string
  | GetSnapshotterCredentials volSnapshotInfo
  | CSIGetMetadataAllocated csi_GetMetadataAllocatedRequest
  | CSIRecv "go_error + csi_GetMetadataAllocatedResponse"
  | ClientSend GetMetadataAllocatedResponse "go_error option"

text \<open>
  The caller's stream \<^verbatim>\<open>api.SnapshotMetadata_GetMetadataAllocatedServer\<close>: an object with a
  state of its own (\<^verbatim>\<open>'s\<close>), whose \<^verbatim>\<open>Send\<close> returns nil or an error.
\<close>

type_synonym 's ServerStream = "'s \<Rightarrow> GetMetadataAllocatedResponse \<Rightarrow> go_error option \<times> 's"

text \<open>
  The generated getters of a request message return the zero value for a nil receiver.
  A nil request is \<^verbatim>\<open>None\<close>.
\<close>

definition GetSecurityToken :: "GetMetadataAllocatedRequest option \<Rightarrow> string" where
  "GetSecurityToken x = (case x of None \<Rightarrow> [] | Some req \<Rightarrow> SecurityToken req)"

definition GetNamespace :: "GetMetadataAllocatedRequest option \<Rightarrow> string" where
  "GetNamespace x = (case x of None \<Rightarrow> [] | Some req \<Rightarrow> api_Namespace req)"

definition GetSnapshotName :: "GetMetadataAllocatedRequest option \<Rightarrow> string" where
  "GetSnapshotName x = (case x of None \<Rightarrow> [] | Some req \<Rightarrow> api_SnapshotName req)"

text \<open>\<^verbatim>\<open>validateGetMetadataAllocatedRequest\<close> (lines 75-89).\<close>

definition validateGetMetadataAllocatedRequest ::
  "messages \<Rightarrow> GetMetadataAllocatedRequest option \<Rightarrow> go_error option" where
  "validateGetMetadataAllocatedRequest M req =
     (if length (GetSecurityToken req) = 0
        then Some (StatusError InvalidArgument (msgInvalidArgumentSecurityTokenMissing M))
      else if length (GetNamespace req) = 0
        then Some (StatusError InvalidArgument (msgInvalidArgumentNamespaceMissing M))
      else if length (GetSnapshotName req) = 0
        then Some (StatusError InvalidArgument (msgInvalidArgumentSnaphotNameMissing M))
      else None)"

text \<open>\<^verbatim>\<open>convertToCSIGetMetadataAllocatedRequest\<close> (lines 91-114), with the calls it makes.\<close>

definition convertToCSIGetMetadataAllocatedRequest ::
  "messages \<Rightarrow> Server \<Rightarrow> GetMetadataAllocatedRequest
     \<Rightarrow> (go_error + csi_GetMetadataAllocatedRequest) \<times> event list" where
  "convertToCSIGetMetadataAllocatedRequest M s req =
     (case getVolSnapshotInfo s (api_Namespace req) (api_SnapshotName req) of
        Inl err \<Rightarrow> (Inl err, [GetVolSnapshotInfo (api_Namespace req) (api_SnapshotName req)])
      | Inr vsi \<Rightarrow>
          if DriverName vsi \<noteq> driverName s
          then (Inl (StatusError InvalidArgument
                       (msgInvalidArgumentSnaphotDriverInvalidFmt M (api_SnapshotName req) (driverName s))),
                [GetVolSnapshotInfo (api_Namespace req) (api_SnapshotName req)])
          else (case getSnapshotterCredentials s vsi of
                  Inl err \<Rightarrow>
                    (Inl err, [GetVolSnapshotInfo (api_Namespace req) (api_SnapshotName req),
                               GetSnapshotterCredentials vsi])
                | Inr secretsMap \<Rightarrow>
                    (Inr \<lparr>SnapshotId = SnapshotHandle vsi,
                          csi_StartingOffset = api_StartingOffset req,
                          csi_MaxResults = api_MaxResults req,
                          Secrets = secretsMap\<rparr>,
                     [GetVolSnapshotInfo (api_Namespace req) (api_SnapshotName req),
                      GetSnapshotterCredentials vsi])))"

text \<open>
  \<^verbatim>\<open>convertToGetMetadataAllocatedResponse\<close> (lines 137-151). The conversion of the
  enumeration is a conversion between two types over \<^verbatim>\<open>int32\<close>; the loop appends one
  block for each block of the driver's response.
\<close>

fun api_BlockMetadataType_of :: "csi_BlockMetadataType \<Rightarrow> BlockMetadataType" where
  "api_BlockMetadataType_of (csi_BlockMetadataType_value n) = BlockMetadataType_value n"

definition convertToGetMetadataAllocatedResponse ::
  "csi_GetMetadataAllocatedResponse \<Rightarrow> GetMetadataAllocatedResponse" where
  "convertToGetMetadataAllocatedResponse csiResp =
     foldl (\<lambda>apiResp b.
              apiResp\<lparr>api_BlockMetadata :=
                api_BlockMetadata apiResp @ [\<lparr>ByteOffset = csi_ByteOffset b, SizeBytes = csi_SizeBytes b\<rparr>]\<rparr>)
       \<lparr>api_BlockMetadataType = api_BlockMetadataType_of (csi_BlockMetadataType csiResp),
        api_VolumeCapacityBytes = csi_VolumeCapacityBytes csiResp,
        api_BlockMetadata = []\<rparr>
       (csi_BlockMetadata csiResp)"

text \<open>
  \<^verbatim>\<open>streamGetMetadataAllocatedResponse\<close> (lines 116-135). The two equations are the two
  results of \<^verbatim>\<open>csiStream.Recv()\<close>: the final error, or a response of the driver.
\<close>

fun streamGetMetadataAllocatedResponse ::
  "messages \<Rightarrow> 's ServerStream \<Rightarrow> 's \<Rightarrow> csi_GetMetadataAllocatedResponse stream
     \<Rightarrow> go_error option \<times> event list \<times> 's" where
  "streamGetMetadataAllocatedResponse M Send cs (StreamEnd err) =
     (if err = IoEOF then (None, [CSIRecv (Inl err)], cs)
      else (Some (statusPassOrWrapError err Internal (msgInternalFailedCSIDriverResponseFmt M (Error err))),
            [CSIRecv (Inl err)], cs))"
| "streamGetMetadataAllocatedResponse M Send cs (StreamMsg csiResp rest) =
     (let clientResp = convertToGetMetadataAllocatedResponse csiResp
      in case Send cs clientResp of
           (Some err, cs1) \<Rightarrow>
             (Some (statusPassOrWrapError err Internal (msgInternalFailedtoSendResponseFmt M (Error err))),
              [CSIRecv (Inr csiResp), ClientSend clientResp (Some err)], cs1)
         | (None, cs1) \<Rightarrow>
             (case streamGetMetadataAllocatedResponse M Send cs1 rest of
                (res, evs, cs2) \<Rightarrow>
                  (res, CSIRecv (Inr csiResp) # ClientSend clientResp None # evs, cs2)))"

text \<open>
  Modelled from the spec: \<^verbatim>\<open>isCSIDriverReady\<close> is declared outside the source files at
  hand. The spec (4.3, 7): the handlers reject a request with \<^verbatim>\<open>Unavailable\<close>, driver not
  ready, when the readiness flag is false.
\<close>

definition isCSIDriverReady :: "messages \<Rightarrow> Server \<Rightarrow> go_error option" where
  "isCSIDriverReady M s =
     (if isReady s then None else Some (StatusError Unavailable (msgUnavailableCSIDriverNotReady M)))"

text \<open>
  \<^verbatim>\<open>GetMetadataAllocated\<close> (lines 31-60). The first statement builds the logging context
  from \<^verbatim>\<open>req.Namespace\<close> and the other fields, read without a getter: a nil request
  panics there. The log lines themselves are not modelled.
\<close>

definition GetMetadataAllocated ::
  "messages \<Rightarrow> Server \<Rightarrow> GetMetadataAllocatedRequest option \<Rightarrow> 's ServerStream \<Rightarrow> 's
     \<Rightarrow> go_result \<times> event list \<times> 's" where
  "GetMetadataAllocated M s reqp Send cs =
     (case reqp of
        None \<Rightarrow> (Panicked, [], cs)
      | Some req \<Rightarrow>
     (case validateGetMetadataAllocatedRequest M reqp of
        Some err \<Rightarrow> (Returned (Some err), [], cs)
      | None \<Rightarrow>
     (case authenticateAndAuthorize s (SecurityToken req) (api_Namespace req) of
        Some err \<Rightarrow>
          (Returned (Some err), [AuthenticateAndAuthorize (SecurityToken req) (api_Namespace req)], cs)
      | None \<Rightarrow>
     (case isCSIDriverReady M s of
        Some err \<Rightarrow>
          (Returned (Some err), [AuthenticateAndAuthorize (SecurityToken req) (api_Namespace req)], cs)
      | None \<Rightarrow>
     (case convertToCSIGetMetadataAllocatedRequest M s req of
        (Inl err, evs1) \<Rightarrow>
          (Returned (Some err),
           AuthenticateAndAuthorize (SecurityToken req) (api_Namespace req) # evs1, cs)
      | (Inr csiReq, evs1) \<Rightarrow>
     (case csi_GetMetadataAllocated s csiReq of
        Inl err \<Rightarrow>
          (Returned (Some err),
           AuthenticateAndAuthorize (SecurityToken req) (api_Namespace req) # evs1
             @ [CSIGetMetadataAllocated csiReq], cs)
      | Inr csiStream \<Rightarrow>
     (case streamGetMetadataAllocatedResponse M Send cs csiStream of
        (res, evs2, cs1) \<Rightarrow>
          (Returned res,
           AuthenticateAndAuthorize (SecurityToken req) (api_Namespace req) # evs1
             @ [CSIGetMetadataAllocated csiReq] @ evs2, cs1))))))))"

section \<open>Package grpc: the GetMetadataDelta handler\<close>

text \<open>
  Modelled from the spec: \<^verbatim>\<open>validateGetMetadataDeltaRequest\<close> is declared outside the
  source files at hand (its test is among them). The spec (4.4): the handler requires a
  non-empty token, namespace, baseSnapshotName and targetSnapshotName, and the first
  missing field in that order determines the error, an \<^verbatim>\<open>InvalidArgument\<close> status. The
  fields are read through the generated getters, as in the Allocated validator; the
  test's case "nil" expects the security token error for a nil request.
\<close>

definition delta_GetSecurityToken :: "GetMetadataDeltaRequest option \<Rightarrow> string" where
  "delta_GetSecurityToken x = (case x of None \<Rightarrow> [] | Some req \<Rightarrow> delta_SecurityToken req)"

definition delta_GetNamespace :: "GetMetadataDeltaRequest option \<Rightarrow> string" where
  "delta_GetNamespace x = (case x of None \<Rightarrow> [] | Some req \<Rightarrow> delta_Namespace req)"

definition GetBaseSnapshotName :: "GetMetadataDeltaRequest option \<Rightarrow> string" where
  "GetBaseSnapshotName x = (case x of None \<Rightarrow> [] | Some req \<Rightarrow> BaseSnapshotName req)"

definition GetTargetSnapshotName :: "GetMetadataDeltaRequest option \<Rightarrow> string" where
  "GetTargetSnapshotName x = (case x of None \<Rightarrow> [] | Some req \<Rightarrow> TargetSnapshotName req)"

definition validateGetMetadataDeltaRequest ::
  "messages \<Rightarrow> GetMetadataDeltaRequest option \<Rightarrow> go_error option" where
  "validateGetMetadataDeltaRequest M req =
     (if length (delta_GetSecurityToken req) = 0
        then Some (StatusError InvalidArgument (msgInvalidArgumentSecurityTokenMissing M))
      else if length (delta_GetNamespace req) = 0
        then Some (StatusError InvalidArgument (msgInvalidArgumentNamespaceMissing M))
      else if length (GetBaseSnapshotName req) = 0
        then Some (StatusError InvalidArgument (msgInvalidArgumentBaseSnapshotNameMissing M))
      else if length (GetTargetSnapshotName req) = 0
        then Some (StatusError InvalidArgument (msgInvalidArgumentTargetSnapshotNameMissing M))
      else None)"

text \<open>
  Modelled from the spec: \<^verbatim>\<open>convertToCSIGetMetadataDeltaRequest\<close> is declared outside the
  source files at hand (its test is among them). The spec (4.1, 4.4): both snapshots are
  resolved, the target before the base, and an error of either resolution is returned;
  then the driver of each content is compared with the configured driver, the target's
  first; then the source volumes of the two snapshots are compared; then the
  credentials are fetched, for the target; the request carries the two handles, the
  starting offset, the maximum and the secrets.
\<close>

definition convertToCSIGetMetadataDeltaRequest ::
  "messages \<Rightarrow> Server \<Rightarrow> GetMetadataDeltaRequest
     \<Rightarrow> (go_error + csi_GetMetadataDeltaRequest) \<times> event list" where
  "convertToCSIGetMetadataDeltaRequest M s req =
     (case getVolSnapshotInfo s (delta_Namespace req) (TargetSnapshotName req) of
        Inl err \<Rightarrow> (Inl err, [GetVolSnapshotInfo (delta_Namespace req) (TargetSnapshotName req)])
      | Inr vsiTarget \<Rightarrow>
     (case getVolSnapshotInfo s (delta_Namespace req) (BaseSnapshotName req) of
        Inl err \<Rightarrow>
          (Inl err, [GetVolSnapshotInfo (delta_Namespace req) (TargetSnapshotName req),
                     GetVolSnapshotInfo (delta_Namespace req) (BaseSnapshotName req)])
      | Inr vsiBase \<Rightarrow>
          if DriverName vsiTarget \<noteq> driverName s
          then (Inl (StatusError InvalidArgument
                       (msgInvalidArgumentSnaphotDriverInvalidFmt M (TargetSnapshotName req) (driverName s))),
                [GetVolSnapshotInfo (delta_Namespace req) (TargetSnapshotName req),
                 GetVolSnapshotInfo (delta_Namespace req) (BaseSnapshotName req)])
          else if DriverName vsiBase \<noteq> driverName s
          then (Inl (StatusError InvalidArgument
                       (msgInvalidArgumentSnaphotDriverInvalidFmt M (BaseSnapshotName req) (driverName s))),
                [GetVolSnapshotInfo (delta_Namespace req) (TargetSnapshotName req),
                 GetVolSnapshotInfo (delta_Namespace req) (BaseSnapshotName req)])
          else if SourceVolume vsiBase \<noteq> SourceVolume vsiTarget
          then (Inl (StatusError InvalidArgument (msgInvalidArgumentDiffSnapshotSourceVolumes M)),
                [GetVolSnapshotInfo (delta_Namespace req) (TargetSnapshotName req),
                 GetVolSnapshotInfo (delta_Namespace req) (BaseSnapshotName req)])
          else (case getSnapshotterCredentials s vsiTarget of
                  Inl err \<Rightarrow>
                    (Inl err, [GetVolSnapshotInfo (delta_Namespace req) (TargetSnapshotName req),
                               GetVolSnapshotInfo (delta_Namespace req) (BaseSnapshotName req),
                               GetSnapshotterCredentials vsiTarget])
                | Inr secretsMap \<Rightarrow>
                    (Inr \<lparr>BaseSnapshotId = SnapshotHandle vsiBase,
                          TargetSnapshotId = SnapshotHandle vsiTarget,
                          csi_delta_StartingOffset = delta_StartingOffset req,
                          csi_delta_MaxResults = delta_MaxResults req,
                          csi_delta_Secrets = secretsMap\<rparr>,
                     [GetVolSnapshotInfo (delta_Namespace req) (TargetSnapshotName req),
                      GetVolSnapshotInfo (delta_Namespace req) (BaseSnapshotName req),
                      GetSnapshotterCredentials vsiTarget]))))"

section \<open>Package verifier: the emitter that compares two devices\<close>

text \<open>
  An open \<^verbatim>\<open>*os.File\<close>: its name, its bytes, the read offset, and the errors the system
  calls return on it: \<^verbatim>\<open>seekFail\<close> is what \<^verbatim>\<open>Seek\<close> fails with, if it fails, and
  \<^verbatim>\<open>readFail off\<close> what a \<^verbatim>\<open>Read\<close> at offset \<^verbatim>\<open>off\<close> fails with.
\<close>

record File =
  Name :: string
  contents :: "byte list"
  offset :: nat
  seekFail :: "go_error option"
  readFail :: "nat \<Rightarrow> go_error option"

text \<open>\<^verbatim>\<open>f.Seek(0, io.SeekStart)\<close>.\<close>

definition Seek_start :: "File \<Rightarrow> go_error option \<times> File" where
  "Seek_start f = (case seekFail f of Some err \<Rightarrow> (Some err, f) | None \<Rightarrow> (None, f\<lparr>offset := 0\<rparr>))"

text \<open>
  \<^verbatim>\<open>f.Read(p)\<close>: at the end of the file it returns 0 and \<^verbatim>\<open>io.EOF\<close>; otherwise it copies
  the next bytes, at most \<^verbatim>\<open>len(p)\<close> of them, to the start of \<^verbatim>\<open>p\<close>, leaves the rest of
  \<^verbatim>\<open>p\<close> as it was, and returns their number. The result is the number, the error, the
  buffer and the file.
\<close>

definition Read :: "File \<Rightarrow> byte list \<Rightarrow> nat \<times> go_error option \<times> byte list \<times> File" where
  "Read f p =
     (case readFail f (offset f) of
        Some err \<Rightarrow> (0, Some err, p, f)
      | None \<Rightarrow>
          if length (contents f) \<le> offset f then (0, Some IoEOF, p, f)
          else (let bs = take (length p) (drop (offset f) (contents f))
                in (length bs, None, bs @ drop (length bs) p, f\<lparr>offset := offset f + length bs\<rparr>)))"

definition chunkSize :: nat where
  "chunkSize = 256"

text \<open>
  The verb \<^verbatim>\<open>%q\<close> applied to a string and to an error value: the text in double quotes
  (escapes inside the text are not modelled); a nil error prints as \<^verbatim>\<open>%!q(<nil>)\<close>.
\<close>

definition quote :: "string \<Rightarrow> string" where
  "quote t = [CHR 0x22] @ t @ [CHR 0x22]"

definition fmt_q :: "go_error option \<Rightarrow> string" where
  "fmt_q x = (case x of None \<Rightarrow> ''%!q(<nil>)'' | Some err \<Rightarrow> quote (Error err))"

text \<open>
  The loop of \<^verbatim>\<open>VerifierEmitter.SnapshotMetadataIteratorDone\<close> (lines 136-157). The numbers
  of bytes read are discarded, as in the source; the two buffers are compared whole.
  The loop has no bound of its own, so its result is an option: \<^verbatim>\<open>None\<close> when it does
  not return.
\<close>

partial_function (option) VerifierEmitter_Done_loop ::
  "File \<Rightarrow> File \<Rightarrow> byte list \<Rightarrow> byte list \<Rightarrow> go_error option option" where
  "VerifierEmitter_Done_loop SourceDevice TargetDevice sourceBuffer targetBuffer =
     (case Read SourceDevice sourceBuffer of (n1, sourceErr, sourceBuffer1, SourceDevice1) \<Rightarrow>
      case Read TargetDevice targetBuffer of (n2, targetErr, targetBuffer1, TargetDevice1) \<Rightarrow>
        if sourceErr \<noteq> None \<or> targetErr \<noteq> None then
          (if sourceErr = Some IoEOF \<and> targetErr = Some IoEOF then Some None
           else if sourceErr = Some IoEOF \<or> targetErr = Some IoEOF
             then Some (Some (OtherError ''source and target device contents do not match''))
           else Some (Some (OtherError
                  (''error reading source and target device contents: source('' @ fmt_q sourceErr
                   @ '') target('' @ fmt_q targetErr @ '')''))))
        else if sourceBuffer1 \<noteq> targetBuffer1
          then Some (Some (OtherError ''source and target device contents do not match''))
        else VerifierEmitter_Done_loop SourceDevice1 TargetDevice1 sourceBuffer1 targetBuffer1)"

text \<open>\<^verbatim>\<open>VerifierEmitter.SnapshotMetadataIteratorDone\<close> (lines 122-158).\<close>

definition VerifierEmitter_SnapshotMetadataIteratorDone ::
  "File \<Rightarrow> File \<Rightarrow> go_error option option" where
  "VerifierEmitter_SnapshotMetadataIteratorDone SourceDevice TargetDevice =
     (case Seek_start SourceDevice of
        (Some err, _) \<Rightarrow>
          Some (Some (Errorf (''failed to seek source device('' @ quote (Name SourceDevice)
                               @ '') to start: '') err []))
      | (None, SourceDevice1) \<Rightarrow>
     (case Seek_start TargetDevice of
        (Some err, _) \<Rightarrow>
          Some (Some (Errorf (''failed to seek target device('' @ quote (Name TargetDevice)
                               @ '') to start: '') err []))
      | (None, TargetDevice1) \<Rightarrow>
          VerifierEmitter_Done_loop SourceDevice1 TargetDevice1
            (replicate chunkSize 0) (replicate chunkSize 0)))"

text \<open>
  The contents of a device cut into chunks of \<^verbatim>\<open>n\<close> bytes, the last one shorter when the
  length is not a multiple of \<^verbatim>\<open>n\<close>: what reading it from the start in chunks yields.
\<close>

function chunksOf :: "nat \<Rightarrow> 'a list \<Rightarrow> 'a list list" where
  "chunksOf n xs = (if n = 0 \<or> xs = [] then [] else take n xs # chunksOf n (drop n xs))"
  by pat_completeness auto
termination
  by (relation "measure (\<lambda>(n, xs). length xs)") auto

declare chunksOf.simps [simp del]

section \<open>Reading the calls of a run\<close>



section \<open>Concrete inputs\<close>

text \<open>
  Messages with the texts the spec quotes (4.6); the texts of the other constants are
  placeholders.
\<close>

definition exampleMessages :: messages where
  "exampleMessages =
     \<lparr>msgInvalidArgumentSecurityTokenMissing = ''security token missing'',
      msgInvalidArgumentNamespaceMissing = ''Namespace missing'',
      msgInvalidArgumentSnaphotNameMissing = ''SnapshotName missing'',
      msgInvalidArgumentBaseSnapshotNameMissing = ''BaseSnapshotName missing'',
      msgInvalidArgumentTargetSnapshotNameMissing = ''TargetSnapshotName missing'',
      msgInvalidArgumentSnaphotDriverInvalidFmt =
        (\<lambda>snapshot driver. ''VolumeSnapshot '' @ snapshot @ '' does not belong to driver '' @ driver),
      msgInvalidArgumentDiffSnapshotSourceVolumes = ''snapshots have different source volumes'',
      msgUnavailableCSIDriverNotReady = ''driver not ready'',
      msgInternalFailedCSIDriverResponse = ''CSI driver response failure'',
      msgInternalFailedToSendResponse = ''failed to send response''\<rparr>"

text \<open>
  The two records of the spec's first scenario (8, "happy-path allocated"):
  \<^verbatim>\<open>{FIXED_LENGTH, 1<<30, [{0,1024}]}\<close> and \<^verbatim>\<open>{FIXED_LENGTH, 1<<30, [{1,1024},{2,1024}]}\<close>.
\<close>

definition exampleRecord1 :: csi_GetMetadataAllocatedResponse where
  "exampleRecord1 =
     \<lparr>csi_BlockMetadataType = csi_BlockMetadataType_FIXED_LENGTH,
      csi_VolumeCapacityBytes = 1073741824,
      csi_BlockMetadata = [\<lparr>csi_ByteOffset = 0, csi_SizeBytes = 1024\<rparr>]\<rparr>"

definition exampleRecord2 :: csi_GetMetadataAllocatedResponse where
  "exampleRecord2 =
     \<lparr>csi_BlockMetadataType = csi_BlockMetadataType_FIXED_LENGTH,
      csi_VolumeCapacityBytes = 1073741824,
      csi_BlockMetadata = [\<lparr>csi_ByteOffset = 1, csi_SizeBytes = 1024\<rparr>,
                           \<lparr>csi_ByteOffset = 2, csi_SizeBytes = 1024\<rparr>]\<rparr>"

text \<open>
  Two caller streams, as the fake of the tests: one keeps what it is sent and returns
  nil, the other fails every \<^verbatim>\<open>Send\<close> with a given error.
\<close>

definition acceptingStream :: "GetMetadataAllocatedResponse list ServerStream" where
  "acceptingStream cs r = (None, cs @ [r])"



text \<open>An emitter that accepts every record, and the arguments of a valid call.\<close>

definition acceptingEmitter :: "unit IteratorEmitter" where
  "acceptingEmitter =
     \<lparr>SnapshotMetadataIteratorRecord = (\<lambda>st n md. (None, st)),
      SnapshotMetadataIteratorDone = (\<lambda>st n. (None, st))\<rparr>"

definition exampleClients :: Clients where
  "exampleClients =
     \<lparr>SelfSubjectReviews_Create = Inr ''system:serviceaccount:ns-a:sa-b'',
      VolumeSnapshots_Get =
        (\<lambda>ns name. Inr \<lparr>vs_Namespace = ns, vs_Name = name,
                         vs_Status = Some \<lparr>BoundVolumeSnapshotContentName = Some (''content-'' @ name)\<rparr>\<rparr>),
      VolumeSnapshotContents_Get = (\<lambda>name. Inr \<lparr>vsc_Spec_Driver = ''driver-X''\<rparr>),
      SnapshotMetadataServices_Get =
        (\<lambda>driver. Inr \<lparr>Spec_Audience = ''audience-X'', Spec_CACert = [], Spec_Address = ''gateway:6443''\<rparr>),
      ServiceAccounts_CreateToken = (\<lambda>saNamespace sa audience expiry. Inr ''token-T'')\<rparr>"

definition exampleArgs :: "unit Args" where
  "exampleArgs =
     \<lparr>Clients = exampleClients, Emitter = Some acceptingEmitter, Namespace = ''ns'',
      SnapshotName = ''snap-1'', PrevSnapshotName = [], StartingOffset = 0, MaxResults = 0,
      CSIDriver = [], SANamespace = [], SAName = [], TokenExpirySecs = 0\<rparr>"

definition clientsValid :: "Clients \<Rightarrow> go_error option" where
  "clientsValid c = None"

text \<open>
  Requests with missing fields: an Allocated request without token and namespace, a
  Delta request without the base snapshot name, and arguments of the iterator with a
  negative starting offset, with no emitter and no namespace, and with a negative
  token expiry and a negative maximum.
\<close>

definition requestNoTokenNoNamespace :: GetMetadataAllocatedRequest where
  "requestNoTokenNoNamespace =
     \<lparr>SecurityToken = [], api_Namespace = [], api_SnapshotName = ''snap-1'',
      api_StartingOffset = 0, api_MaxResults = 0\<rparr>"

definition deltaRequestNoBase :: GetMetadataDeltaRequest where
  "deltaRequestNoBase =
     \<lparr>delta_SecurityToken = ''token'', delta_Namespace = ''test-ns'', BaseSnapshotName = [],
      TargetSnapshotName = ''snap-2'', delta_StartingOffset = 0, delta_MaxResults = 0\<rparr>"

definition argsNegativeOffset :: "unit Args" where
  "argsNegativeOffset = exampleArgs\<lparr>StartingOffset := - 1\<rparr>"

definition argsNoEmitterNoNamespace :: "unit Args" where
  "argsNoEmitterNoNamespace = exampleArgs\<lparr>Emitter := None, Namespace := []\<rparr>"

definition argsNegativeExpiryAndMax :: "unit Args" where
  "argsNegativeExpiryAndMax = exampleArgs\<lparr>TokenExpirySecs := - 1, MaxResults := - 1\<rparr>"

text \<open>
  The step of the handler's pipeline a call belongs to: authentication, snapshot
  resolution, credentials, the call to the driver, the forwarding of the stream.
  Validation and the readiness gate make no call.
\<close>

fun pipelinePhase :: "event \<Rightarrow> nat" where
  "pipelinePhase (AuthenticateAndAuthorize token ns) = 1"
| "pipelinePhase (GetVolSnapshotInfo ns name) = 2"
| "pipelinePhase (GetSnapshotterCredentials vsi) = 3"
| "pipelinePhase (CSIGetMetadataAllocated csiReq) = 4"
| "pipelinePhase (CSIRecv r) = 5"
| "pipelinePhase (ClientSend r e) = 5"

text \<open>
  A server whose driver is \<^verbatim>\<open>driver-X\<close> and is ready, with a cluster that accepts the
  token \<^verbatim>\<open>token-T\<close> and holds every snapshot, and a driver that answers with the two
  records above; the same server with the readiness flag false; the same server with
  a cluster whose contents belong to \<^verbatim>\<open>driver-unexpected\<close> (scenario 6 of the spec).
\<close>

definition exampleServer :: Server where
  "exampleServer =
     \<lparr>driverName = ''driver-X'',
      isReady = True,
      authenticateAndAuthorize =
        (\<lambda>token ns. if token = ''token-T'' then None
                     else Some (StatusError Unauthenticated ''unauthenticated user'')),
      getVolSnapshotInfo =
        (\<lambda>ns name. Inr \<lparr>DriverName = ''driver-X'', SnapshotHandle = ''handle-'' @ name,
                         SourceVolume = ''pvc-a''\<rparr>),
      getSnapshotterCredentials = (\<lambda>vsi. Inr Map.empty),
      csi_GetMetadataAllocated = (\<lambda>csiReq. Inr (streamOf [exampleRecord1, exampleRecord2] IoEOF))\<rparr>"

definition notReadyServer :: Server where
  "notReadyServer = exampleServer\<lparr>isReady := False\<rparr>"

definition unexpectedDriverServer :: Server where
  "unexpectedDriverServer =
     exampleServer\<lparr>getVolSnapshotInfo :=
       (\<lambda>ns name. Inr \<lparr>DriverName = ''driver-unexpected'', SnapshotHandle = ''handle-'' @ name,
                        SourceVolume = ''pvc-a''\<rparr>)\<rparr>"

definition exampleRequest :: GetMetadataAllocatedRequest where
  "exampleRequest =
     \<lparr>SecurityToken = ''token-T'', api_Namespace = ''ns'', api_SnapshotName = ''snap-1'',
      api_StartingOffset = 0, api_MaxResults = 2\<rparr>"

definition exampleDeltaRequest :: GetMetadataDeltaRequest where
  "exampleDeltaRequest =
     \<lparr>delta_SecurityToken = ''token-T'', delta_Namespace = ''ns'', BaseSnapshotName = ''snap-1'',
      TargetSnapshotName = ''snap-2'', delta_StartingOffset = 25, delta_MaxResults = 1\<rparr>"





fun tokensCreated :: "iter_event list \<Rightarrow> (string \<times> string) list" where
  "tokensCreated [] = []"
| "tokensCreated (CreateToken saNamespace sa audience expiry # evs) = (saNamespace, sa) # tokensCreated evs"
| "tokensCreated (ev # evs) = tokensCreated evs"





text \<open>
  A gateway that accepts every certificate and every address and answers an Allocated
  call with two responses and a clean end; an emitter that fails at the second record.
\<close>

definition exampleResponse1 :: GetMetadataAllocatedResponse where
  "exampleResponse1 =
     \<lparr>api_BlockMetadataType = BlockMetadataType_FIXED_LENGTH,
      api_VolumeCapacityBytes = 1073741824,
      api_BlockMetadata = [\<lparr>ByteOffset = 0, SizeBytes = 1024\<rparr>]\<rparr>"

definition exampleResponse2 :: GetMetadataAllocatedResponse where
  "exampleResponse2 =
     \<lparr>api_BlockMetadataType = BlockMetadataType_FIXED_LENGTH,
      api_VolumeCapacityBytes = 1073741824,
      api_BlockMetadata = [\<lparr>ByteOffset = 1, SizeBytes = 1024\<rparr>, \<lparr>ByteOffset = 2, SizeBytes = 1024\<rparr>]\<rparr>"

definition exampleGRPC :: GRPC where
  "exampleGRPC =
     \<lparr>AppendCertsFromPEM = (\<lambda>caCert. True),
      grpc_NewClient = (\<lambda>url. None),
      client_GetMetadataAllocated = (\<lambda>c req. Inr (streamOf [exampleResponse1, exampleResponse2] IoEOF)),
      client_GetMetadataDelta = (\<lambda>c req. Inr (streamOf [exampleResponse1, exampleResponse2] IoEOF))\<rparr>"





text \<open>The same arguments with a cluster where the caller is not a service account.\<close>

definition exampleArgsAdmin :: "unit Args" where
  "exampleArgsAdmin =
     exampleArgs\<lparr>Clients := exampleClients\<lparr>SelfSubjectReviews_Create := Inr ''kubernetes-admin''\<rparr>\<rparr>"

definition exampleServiceRecord :: SnapshotMetadataService where
  "exampleServiceRecord =
     \<lparr>Spec_Audience = ''audience-X'', Spec_CACert = [], Spec_Address = ''gateway:6443''\<rparr>"

text \<open>
  Two devices that differ: the source holds one zero byte, the target two.
\<close>

definition sourceOneZero :: File where
  "sourceOneZero =
     \<lparr>Name = ''/dev/source'', contents = [0], offset = 0, seekFail = None, readFail = (\<lambda>off. None)\<rparr>"

definition targetTwoZeros :: File where
  "targetTwoZeros =
     \<lparr>Name = ''/dev/target'', contents = [0, 0], offset = 0, seekFail = None, readFail = (\<lambda>off. None)\<rparr>"

text \<open>A device with a given name and contents, on which no system call fails.\<close>

definition deviceOf :: "string \<Rightarrow> byte list \<Rightarrow> File" where
  "deviceOf name bs =
     \<lparr>Name = name, contents = bs, offset = 0, seekFail = None, readFail = (\<lambda>off. None)\<rparr>"

section \<open>Properties of the code\<close>

subsection \<open>The response conversion copies every field\<close>



subsection \<open>The forwarding loop\<close>




subsection \<open>How the forwarding loop ends\<close>





subsection \<open>Validation of the requests\<close>

text \<open>
  Claim C3. For a request to either streaming endpoint in which at least one required
  field is empty, validation fails with an \<^verbatim>\<open>InvalidArgument\<close> status whose message is the
  constant of the first missing field in the fixed order: token, namespace,
  snapshotName for Allocated; token, namespace, baseSnapshotName, targetSnapshotName
  for Delta. (The Allocated validator is the source's; the Delta validator is modelled
  from the spec.)
\<close>

theorem validation_reports_first_missing_field:
  "(GetSecurityToken req = [] \<or> GetNamespace req = [] \<or> GetSnapshotName req = [] \<longrightarrow>
      (\<exists>m. firstViolation
              [(GetSecurityToken req = [], msgInvalidArgumentSecurityTokenMissing M),
               (GetNamespace req = [], msgInvalidArgumentNamespaceMissing M),
               (GetSnapshotName req = [], msgInvalidArgumentSnaphotNameMissing M)] = Some m
          \<and> validateGetMetadataAllocatedRequest M req = Some (StatusError InvalidArgument m)))
   \<and> (delta_GetSecurityToken dreq = [] \<or> delta_GetNamespace dreq = []
        \<or> GetBaseSnapshotName dreq = [] \<or> GetTargetSnapshotName dreq = [] \<longrightarrow>
      (\<exists>m. firstViolation
              [(delta_GetSecurityToken dreq = [], msgInvalidArgumentSecurityTokenMissing M),
               (delta_GetNamespace dreq = [], msgInvalidArgumentNamespaceMissing M),
               (GetBaseSnapshotName dreq = [], msgInvalidArgumentBaseSnapshotNameMissing M),
               (GetTargetSnapshotName dreq = [], msgInvalidArgumentTargetSnapshotNameMissing M)] = Some m
          \<and> validateGetMetadataDeltaRequest M dreq = Some (StatusError InvalidArgument m)))"
  by (auto simp: validateGetMetadataAllocatedRequest_def validateGetMetadataDeltaRequest_def
        firstViolation_def)

text \<open>
  The claim's example: a request that lacks both token and namespace reports the
  token. A Delta request that lacks the base snapshot name reports that name.
\<close>

theorem validation_reports_first_missing_field_witness:
  "GetSecurityToken (Some requestNoTokenNoNamespace) = []
   \<and> GetNamespace (Some requestNoTokenNoNamespace) = []
   \<and> validateGetMetadataAllocatedRequest exampleMessages (Some requestNoTokenNoNamespace)
       = Some (StatusError InvalidArgument ''security token missing'')
   \<and> GetBaseSnapshotName (Some deltaRequestNoBase) = []
   \<and> validateGetMetadataDeltaRequest exampleMessages (Some deltaRequestNoBase)
       = Some (StatusError InvalidArgument ''BaseSnapshotName missing'')"
  using validation_reports_first_missing_field
          [of "Some requestNoTokenNoNamespace" exampleMessages "Some deltaRequestNoBase"]
  by (simp add: GetSecurityToken_def GetNamespace_def GetSnapshotName_def
        delta_GetSecurityToken_def delta_GetNamespace_def GetBaseSnapshotName_def
        GetTargetSnapshotName_def requestNoTokenNoNamespace_def deltaRequestNoBase_def
        exampleMessages_def firstViolation_def)

text \<open>
  Claim C9. Validation of a nil request is total: the validators read every field
  through the getters, which return the empty string for a nil receiver, so a nil
  Allocated request and a nil Delta request are both rejected with the \<^verbatim>\<open>InvalidArgument\<close>
  status of the missing security token, the first check. (The handler itself reads
  \<^verbatim>\<open>req.Namespace\<close> without a getter before it validates; the claim is about the
  validators.)
\<close>

theorem validation_of_nil_request:
  "validateGetMetadataAllocatedRequest M None
     = Some (StatusError InvalidArgument (msgInvalidArgumentSecurityTokenMissing M))
   \<and> validateGetMetadataDeltaRequest M None
     = Some (StatusError InvalidArgument (msgInvalidArgumentSecurityTokenMissing M))"
  by (simp add: validateGetMetadataAllocatedRequest_def validateGetMetadataDeltaRequest_def
        GetSecurityToken_def delta_GetSecurityToken_def)

theorem validation_of_nil_request_witness:
  "validateGetMetadataAllocatedRequest exampleMessages None
     = Some (StatusError InvalidArgument ''security token missing'')
   \<and> validateGetMetadataDeltaRequest exampleMessages None
     = Some (StatusError InvalidArgument ''security token missing'')"
  using validation_of_nil_request [of exampleMessages] by (simp add: exampleMessages_def)

subsection \<open>Validation of the iterator's arguments\<close>

text \<open>
  Claim C6, as the spec states it, fails on the code: a negative \<^verbatim>\<open>StartingOffset\<close> is
  accepted; the emitter is checked first, not last; and \<^verbatim>\<open>TokenExpirySecs\<close> is checked
  before \<^verbatim>\<open>MaxResults\<close>.
\<close>

theorem Validate_order_counterexample:
  "StartingOffset argsNegativeOffset <s 0
   \<and> Validate clientsValid argsNegativeOffset = None
   \<and> Namespace argsNoEmitterNoNamespace = []
   \<and> Validate clientsValid argsNoEmitterNoNamespace
       = Some (Errorf [] ErrInvalidArgs '': missing Emitter'')
   \<and> MaxResults argsNegativeExpiryAndMax <s 0
   \<and> Validate clientsValid argsNegativeExpiryAndMax
       = Some (Errorf [] ErrInvalidArgs '': invalid TokenExpirySecs'')"
  by (simp add: Validate_def argsNegativeOffset_def argsNoEmitterNoNamespace_def
        argsNegativeExpiryAndMax_def exampleArgs_def clientsValid_def)

text \<open>
  Claim C6, amended. \<^verbatim>\<open>Args.Validate\<close> rejects the first violated check in the order of
  the source: the emitter is nil; the namespace is empty; the snapshot name is empty;
  \<^verbatim>\<open>TokenExpirySecs\<close> is negative; \<^verbatim>\<open>MaxResults\<close> is negative; \<^verbatim>\<open>SAName\<close> is given without
  \<^verbatim>\<open>SANamespace\<close>; \<^verbatim>\<open>SANamespace\<close> is given without \<^verbatim>\<open>SAName\<close>. Each is reported as an
  \<^verbatim>\<open>ErrInvalidArgs\<close> error naming the option. When no check is violated the result is
  that of the validation of the clients. The previous snapshot name, the starting
  offset and the driver name are not examined: changing them does not change the
  result.
\<close>

theorem Validate_order:
  "Validate cv a =
     (case firstViolation
        [(Emitter a = None, '': missing Emitter''),
         (Namespace a = [], '': missing Namespace''),
         (SnapshotName a = [], '': missing SnapshotName''),
         (TokenExpirySecs a <s 0, '': invalid TokenExpirySecs''),
         (MaxResults a <s 0, '': invalid MaxResults''),
         (SANamespace a = [] \<and> SAName a \<noteq> [], '': SAName provided but SANamespace missing''),
         (SANamespace a \<noteq> [] \<and> SAName a = [], '': SANamespace provided but SAName missing'')]
      of Some m \<Rightarrow> Some (Errorf [] ErrInvalidArgs m)
       | None \<Rightarrow> cv (Clients a))
   \<and> Validate cv (a\<lparr>PrevSnapshotName := p, StartingOffset := off, CSIDriver := d\<rparr>) = Validate cv a"
  by (simp add: Validate_def firstViolation_def)

theorem Validate_order_witness:
  "Validate clientsValid argsNegativeExpiryAndMax
     = Some (Errorf [] ErrInvalidArgs '': invalid TokenExpirySecs'')
   \<and> Validate clientsValid (exampleArgs\<lparr>PrevSnapshotName := ''snap-0'', StartingOffset := - 1,
                                       CSIDriver := ''driver-X''\<rparr>)
     = Validate clientsValid exampleArgs
   \<and> Validate clientsValid exampleArgs = None"
  using Validate_order [where cv = clientsValid and a = argsNegativeExpiryAndMax]
        Validate_order [where cv = clientsValid and a = exampleArgs and p = "''snap-0''"
                          and off = "- 1" and d = "''driver-X''"]
  by (simp add: firstViolation_def argsNegativeExpiryAndMax_def exampleArgs_def clientsValid_def)

subsection \<open>The order of the handler's steps\<close>

lemma stream_events_phase:
  "streamGetMetadataAllocatedResponse M Send cs csiStream = (res, evs, cs') \<Longrightarrow>
   \<forall>ev \<in> set evs. pipelinePhase ev = 5"
proof (induction csiStream arbitrary: cs res evs cs')
  case (StreamEnd err)
  then show ?case by (auto split: if_splits)
next
  case (StreamMsg r rest)
  show ?case
  proof (cases "Send cs (convertToGetMetadataAllocatedResponse r)")
    case (Pair e cs1)
    show ?thesis
    proof (cases e)
      case None
      obtain res2 evs2 cs2 where rec: "streamGetMetadataAllocatedResponse M Send cs1 rest = (res2, evs2, cs2)"
        by (cases "streamGetMetadataAllocatedResponse M Send cs1 rest") auto
      with StreamMsg.prems Pair None have
        "evs = CSIRecv (Inr r) # ClientSend (convertToGetMetadataAllocatedResponse r) None # evs2"
        by (auto simp: Let_def)
      with StreamMsg.IH[OF rec] show ?thesis by simp
    next
      case (Some err)
      with StreamMsg.prems Pair show ?thesis by (auto simp: Let_def)
    qed
  qed
qed

lemma convert_events:
  "snd (convertToCSIGetMetadataAllocatedRequest M s req)
     = [GetVolSnapshotInfo (api_Namespace req) (api_SnapshotName req)]
   \<or> (\<exists>vsi. snd (convertToCSIGetMetadataAllocatedRequest M s req)
         = [GetVolSnapshotInfo (api_Namespace req) (api_SnapshotName req),
            GetSnapshotterCredentials vsi])"
  by (auto simp: convertToCSIGetMetadataAllocatedRequest_def split: sum.splits)

lemma sorted_phase_stream:
  assumes "\<forall>ev \<in> set evs. pipelinePhase ev = 5"
  shows "sorted (map pipelinePhase evs)"
  using assms by (induction evs) auto

lemma handler_events_sorted:
  assumes "GetMetadataAllocated M s (Some req) Send cs = (res, evs, cs')"
  shows "sorted (map pipelinePhase evs)"
proof -
  let ?a = "AuthenticateAndAuthorize (SecurityToken req) (api_Namespace req)"
  obtain r1 evs1 where conv: "convertToCSIGetMetadataAllocatedRequest M s req = (r1, evs1)"
    by (cases "convertToCSIGetMetadataAllocatedRequest M s req") auto
  from convert_events[of M s req] conv have evs1:
    "sorted (map pipelinePhase evs1) \<and> (\<forall>ev \<in> set evs1. pipelinePhase ev \<in> {2, 3})"
    by auto
  show ?thesis
  proof (cases "validateGetMetadataAllocatedRequest M (Some req) = None
                \<and> authenticateAndAuthorize s (SecurityToken req) (api_Namespace req) = None
                \<and> isCSIDriverReady M s = None")
    case False
    with assms show ?thesis
      by (auto simp: GetMetadataAllocated_def split: option.splits)
  next
    case True
    show ?thesis
    proof (cases r1)
      case (Inl err)
      with assms True conv have "evs = ?a # evs1"
        by (auto simp: GetMetadataAllocated_def)
      with evs1 show ?thesis by auto
    next
      case (Inr csiReq)
      show ?thesis
      proof (cases "csi_GetMetadataAllocated s csiReq")
        case (Inl err)
        with assms True conv Inr have "evs = ?a # evs1 @ [CSIGetMetadataAllocated csiReq]"
          by (auto simp: GetMetadataAllocated_def)
        with evs1 show ?thesis by (auto simp: sorted_append)
      next
        case (Inr csiStream)
        obtain res2 evs2 cs2 where
          st: "streamGetMetadataAllocatedResponse M Send cs csiStream = (res2, evs2, cs2)"
          by (cases "streamGetMetadataAllocatedResponse M Send cs csiStream") auto
        with assms True conv \<open>r1 = Inr csiReq\<close> Inr have
          "evs = ?a # evs1 @ [CSIGetMetadataAllocated csiReq] @ evs2"
          by (auto simp: GetMetadataAllocated_def)
        with evs1 stream_events_phase[OF st] sorted_phase_stream[OF stream_events_phase[OF st]]
        show ?thesis by (auto simp: sorted_append)
      qed
    qed
  qed
qed

text \<open>
  Claim C4. \<^verbatim>\<open>GetMetadataAllocated\<close> runs validation, authentication, the readiness gate and
  the resolution in that order and returns at the first failure. For a request (not
  nil) and any server: when a required field is empty the handler returns an
  \<^verbatim>\<open>InvalidArgument\<close> status and has made no call to the cluster or to the driver; a valid
  request first calls the authentication, and when that fails the handler returns its
  error with no other call made; when the readiness flag is false the handler makes no
  call of the snapshot resolution (no call at all besides the authentication), and for a
  valid, authenticated request it returns the \<^verbatim>\<open>Unavailable\<close> driver-not-ready status; in
  every run the calls come in the order of the pipeline. (The error of the readiness gate
  is modelled from the spec.)
\<close>

theorem handler_pipeline_order:
  assumes "GetMetadataAllocated M s (Some req) Send cs = (res, evs, cs')"
  shows "(SecurityToken req = [] \<or> api_Namespace req = [] \<or> api_SnapshotName req = [] \<longrightarrow>
            (\<exists>m. res = Returned (Some (StatusError InvalidArgument m))) \<and> evs = [])
       \<and> (SecurityToken req \<noteq> [] \<and> api_Namespace req \<noteq> [] \<and> api_SnapshotName req \<noteq> [] \<longrightarrow>
            evs \<noteq> [] \<and> hd evs = AuthenticateAndAuthorize (SecurityToken req) (api_Namespace req))
       \<and> (\<forall>err. SecurityToken req \<noteq> [] \<and> api_Namespace req \<noteq> [] \<and> api_SnapshotName req \<noteq> []
              \<and> authenticateAndAuthorize s (SecurityToken req) (api_Namespace req) = Some err \<longrightarrow>
            res = Returned (Some err)
            \<and> evs = [AuthenticateAndAuthorize (SecurityToken req) (api_Namespace req)])
       \<and> (\<not> isReady s \<longrightarrow>
            (\<forall>ev \<in> set evs. ev = AuthenticateAndAuthorize (SecurityToken req) (api_Namespace req)))
       \<and> (SecurityToken req \<noteq> [] \<and> api_Namespace req \<noteq> [] \<and> api_SnapshotName req \<noteq> []
            \<and> authenticateAndAuthorize s (SecurityToken req) (api_Namespace req) = None
            \<and> \<not> isReady s \<longrightarrow>
            res = Returned (Some (StatusError Unavailable (msgUnavailableCSIDriverNotReady M)))
            \<and> evs = [AuthenticateAndAuthorize (SecurityToken req) (api_Namespace req)])
       \<and> sorted (map pipelinePhase evs)"
proof -
  have early: "(SecurityToken req = [] \<or> api_Namespace req = [] \<or> api_SnapshotName req = [] \<longrightarrow>
            (\<exists>m. res = Returned (Some (StatusError InvalidArgument m))) \<and> evs = [])"
    using assms
    by (auto simp: GetMetadataAllocated_def validateGetMetadataAllocatedRequest_def
          GetSecurityToken_def GetNamespace_def GetSnapshotName_def split: if_splits)
  have valid: "SecurityToken req \<noteq> [] \<and> api_Namespace req \<noteq> [] \<and> api_SnapshotName req \<noteq> [] \<Longrightarrow>
                 validateGetMetadataAllocatedRequest M (Some req) = None"
    by (simp add: validateGetMetadataAllocatedRequest_def
          GetSecurityToken_def GetNamespace_def GetSnapshotName_def)
  have first: "(SecurityToken req \<noteq> [] \<and> api_Namespace req \<noteq> [] \<and> api_SnapshotName req \<noteq> [] \<longrightarrow>
            evs \<noteq> [] \<and> hd evs = AuthenticateAndAuthorize (SecurityToken req) (api_Namespace req))"
    using assms valid
    by (auto simp: GetMetadataAllocated_def split: option.splits sum.splits prod.splits)
  have auth: "(\<forall>err. SecurityToken req \<noteq> [] \<and> api_Namespace req \<noteq> [] \<and> api_SnapshotName req \<noteq> []
              \<and> authenticateAndAuthorize s (SecurityToken req) (api_Namespace req) = Some err \<longrightarrow>
            res = Returned (Some err)
            \<and> evs = [AuthenticateAndAuthorize (SecurityToken req) (api_Namespace req)])"
    using assms valid by (auto simp: GetMetadataAllocated_def)
  have gate: "(\<not> isReady s \<longrightarrow>
            (\<forall>ev \<in> set evs. ev = AuthenticateAndAuthorize (SecurityToken req) (api_Namespace req)))"
    using assms
    by (auto simp: GetMetadataAllocated_def isCSIDriverReady_def split: option.splits)
  have notready: "(SecurityToken req \<noteq> [] \<and> api_Namespace req \<noteq> [] \<and> api_SnapshotName req \<noteq> []
            \<and> authenticateAndAuthorize s (SecurityToken req) (api_Namespace req) = None
            \<and> \<not> isReady s \<longrightarrow>
            res = Returned (Some (StatusError Unavailable (msgUnavailableCSIDriverNotReady M)))
            \<and> evs = [AuthenticateAndAuthorize (SecurityToken req) (api_Namespace req)])"
    using assms valid by (auto simp: GetMetadataAllocated_def isCSIDriverReady_def)
  from early first auth gate notready handler_events_sorted[OF assms] show ?thesis
    by blast
qed

text \<open>
  A request without token and namespace is rejected with no call made; on the server
  that is not ready a valid request with a good token is rejected after the
  authentication, the only call.
\<close>

theorem handler_pipeline_order_witness:
  "SecurityToken requestNoTokenNoNamespace = []
   \<and> GetMetadataAllocated exampleMessages exampleServer (Some requestNoTokenNoNamespace)
       acceptingStream []
     = (Returned (Some (StatusError InvalidArgument ''security token missing'')), [], [])
   \<and> \<not> isReady notReadyServer
   \<and> GetMetadataAllocated exampleMessages notReadyServer (Some exampleRequest) acceptingStream []
     = (Returned (Some (StatusError Unavailable ''driver not ready'')),
        [AuthenticateAndAuthorize ''token-T'' ''ns''], [])"
proof -
  have run1: "GetMetadataAllocated exampleMessages exampleServer (Some requestNoTokenNoNamespace)
       acceptingStream []
     = (Returned (Some (StatusError InvalidArgument ''security token missing'')), [], [])"
    by (simp add: GetMetadataAllocated_def validateGetMetadataAllocatedRequest_def
          GetSecurityToken_def requestNoTokenNoNamespace_def exampleMessages_def)
  have pre1: "SecurityToken requestNoTokenNoNamespace = []"
    by (simp add: requestNoTokenNoNamespace_def)
  obtain res2 evs2 cs2 where run2:
    "GetMetadataAllocated exampleMessages notReadyServer (Some exampleRequest) acceptingStream []
       = (res2, evs2, cs2)"
    using prod_cases3 by blast
  have nr: "\<not> isReady notReadyServer"
    by (simp add: notReadyServer_def)
  have pre2: "SecurityToken exampleRequest \<noteq> [] \<and> api_Namespace exampleRequest \<noteq> []
             \<and> api_SnapshotName exampleRequest \<noteq> []
             \<and> authenticateAndAuthorize notReadyServer (SecurityToken exampleRequest)
                 (api_Namespace exampleRequest) = None"
    by (simp add: exampleRequest_def notReadyServer_def exampleServer_def)
  have cs2: "cs2 = []"
    using run2
    by (simp add: GetMetadataAllocated_def validateGetMetadataAllocatedRequest_def
          GetSecurityToken_def GetNamespace_def GetSnapshotName_def isCSIDriverReady_def
          exampleRequest_def notReadyServer_def exampleServer_def)
  note gate = handler_pipeline_order[OF run2, THEN conjunct2, THEN conjunct2, THEN conjunct2,
                THEN conjunct2, THEN conjunct1]
  from gate pre2 nr have r2:
    "res2 = Returned (Some (StatusError Unavailable (msgUnavailableCSIDriverNotReady exampleMessages)))
     \<and> evs2 = [AuthenticateAndAuthorize (SecurityToken exampleRequest) (api_Namespace exampleRequest)]"
    by blast
  have texts: "msgUnavailableCSIDriverNotReady exampleMessages = ''driver not ready''
             \<and> SecurityToken exampleRequest = ''token-T'' \<and> api_Namespace exampleRequest = ''ns''"
    by (simp add: exampleMessages_def exampleRequest_def)
  from run2 r2 cs2 texts have run2':
    "GetMetadataAllocated exampleMessages notReadyServer (Some exampleRequest) acceptingStream []
     = (Returned (Some (StatusError Unavailable ''driver not ready'')),
        [AuthenticateAndAuthorize ''token-T'' ''ns''], [])"
    by simp
  from pre1 run1 nr run2' show ?thesis by blast
qed

subsection \<open>The order of the checks of the request conversion\<close>

text \<open>
  Claim C5. In \<^verbatim>\<open>convertToCSIGetMetadataAllocatedRequest\<close>, when the resolved content's
  driver differs from the configured driver, the conversion fails with the
  \<^verbatim>\<open>InvalidArgument\<close> driver-mismatch status formatted with the snapshot name and the
  configured driver, and the only call made is the resolution: no credentials are
  fetched. The checks run in the order: existence and readiness of snapshot and content
  (the resolution, whose error is returned whatever the driver is), then the driver
  identity, then for Delta the equality of the source volumes, then the fetch of the
  secrets, which happens only when all the checks before it passed and is the last call.
  (The Allocated conversion is the source's; the Delta conversion is modelled from the
  spec.)
\<close>

theorem conversion_check_order:
  "(\<forall>vsi. getVolSnapshotInfo s (api_Namespace req) (api_SnapshotName req) = Inr vsi
            \<and> DriverName vsi \<noteq> driverName s \<longrightarrow>
       convertToCSIGetMetadataAllocatedRequest M s req
         = (Inl (StatusError InvalidArgument
                   (msgInvalidArgumentSnaphotDriverInvalidFmt M (api_SnapshotName req) (driverName s))),
            [GetVolSnapshotInfo (api_Namespace req) (api_SnapshotName req)]))
   \<and> (\<forall>err. getVolSnapshotInfo s (api_Namespace req) (api_SnapshotName req) = Inl err \<longrightarrow>
       convertToCSIGetMetadataAllocatedRequest M s req
         = (Inl err, [GetVolSnapshotInfo (api_Namespace req) (api_SnapshotName req)]))
   \<and> (\<forall>vsi. GetSnapshotterCredentials vsi \<in> set (snd (convertToCSIGetMetadataAllocatedRequest M s req)) \<longrightarrow>
       getVolSnapshotInfo s (api_Namespace req) (api_SnapshotName req) = Inr vsi
       \<and> DriverName vsi = driverName s
       \<and> snd (convertToCSIGetMetadataAllocatedRequest M s req)
           = [GetVolSnapshotInfo (api_Namespace req) (api_SnapshotName req),
              GetSnapshotterCredentials vsi])
   \<and> (\<forall>err. getVolSnapshotInfo s (delta_Namespace dreq) (TargetSnapshotName dreq) = Inl err \<longrightarrow>
       convertToCSIGetMetadataDeltaRequest M s dreq
         = (Inl err, [GetVolSnapshotInfo (delta_Namespace dreq) (TargetSnapshotName dreq)]))
   \<and> (\<forall>vt err. getVolSnapshotInfo s (delta_Namespace dreq) (TargetSnapshotName dreq) = Inr vt
            \<and> getVolSnapshotInfo s (delta_Namespace dreq) (BaseSnapshotName dreq) = Inl err \<longrightarrow>
       convertToCSIGetMetadataDeltaRequest M s dreq
         = (Inl err, [GetVolSnapshotInfo (delta_Namespace dreq) (TargetSnapshotName dreq),
                      GetVolSnapshotInfo (delta_Namespace dreq) (BaseSnapshotName dreq)]))
   \<and> (\<forall>vt vb. getVolSnapshotInfo s (delta_Namespace dreq) (TargetSnapshotName dreq) = Inr vt
            \<and> getVolSnapshotInfo s (delta_Namespace dreq) (BaseSnapshotName dreq) = Inr vb
            \<and> (DriverName vt \<noteq> driverName s \<or> DriverName vb \<noteq> driverName s) \<longrightarrow>
       (\<exists>name. fst (convertToCSIGetMetadataDeltaRequest M s dreq)
                 = Inl (StatusError InvalidArgument
                          (msgInvalidArgumentSnaphotDriverInvalidFmt M name (driverName s))))
       \<and> snd (convertToCSIGetMetadataDeltaRequest M s dreq)
           = [GetVolSnapshotInfo (delta_Namespace dreq) (TargetSnapshotName dreq),
              GetVolSnapshotInfo (delta_Namespace dreq) (BaseSnapshotName dreq)])
   \<and> (\<forall>vt vb. getVolSnapshotInfo s (delta_Namespace dreq) (TargetSnapshotName dreq) = Inr vt
            \<and> getVolSnapshotInfo s (delta_Namespace dreq) (BaseSnapshotName dreq) = Inr vb
            \<and> DriverName vt = driverName s \<and> DriverName vb = driverName s
            \<and> SourceVolume vb \<noteq> SourceVolume vt \<longrightarrow>
       convertToCSIGetMetadataDeltaRequest M s dreq
         = (Inl (StatusError InvalidArgument (msgInvalidArgumentDiffSnapshotSourceVolumes M)),
            [GetVolSnapshotInfo (delta_Namespace dreq) (TargetSnapshotName dreq),
             GetVolSnapshotInfo (delta_Namespace dreq) (BaseSnapshotName dreq)]))
   \<and> (\<forall>vsi. GetSnapshotterCredentials vsi \<in> set (snd (convertToCSIGetMetadataDeltaRequest M s dreq)) \<longrightarrow>
       getVolSnapshotInfo s (delta_Namespace dreq) (TargetSnapshotName dreq) = Inr vsi
       \<and> DriverName vsi = driverName s
       \<and> (\<exists>vb. getVolSnapshotInfo s (delta_Namespace dreq) (BaseSnapshotName dreq) = Inr vb
               \<and> DriverName vb = driverName s \<and> SourceVolume vb = SourceVolume vsi)
       \<and> snd (convertToCSIGetMetadataDeltaRequest M s dreq)
           = [GetVolSnapshotInfo (delta_Namespace dreq) (TargetSnapshotName dreq),
              GetVolSnapshotInfo (delta_Namespace dreq) (BaseSnapshotName dreq),
              GetSnapshotterCredentials vsi])"
proof -
  have a1: "\<forall>vsi. getVolSnapshotInfo s (api_Namespace req) (api_SnapshotName req) = Inr vsi
            \<and> DriverName vsi \<noteq> driverName s \<longrightarrow>
       convertToCSIGetMetadataAllocatedRequest M s req
         = (Inl (StatusError InvalidArgument
                   (msgInvalidArgumentSnaphotDriverInvalidFmt M (api_SnapshotName req) (driverName s))),
            [GetVolSnapshotInfo (api_Namespace req) (api_SnapshotName req)])"
    by (simp add: convertToCSIGetMetadataAllocatedRequest_def)
  have a2: "\<forall>err. getVolSnapshotInfo s (api_Namespace req) (api_SnapshotName req) = Inl err \<longrightarrow>
       convertToCSIGetMetadataAllocatedRequest M s req
         = (Inl err, [GetVolSnapshotInfo (api_Namespace req) (api_SnapshotName req)])"
    by (simp add: convertToCSIGetMetadataAllocatedRequest_def)
  have a3: "\<forall>vsi. GetSnapshotterCredentials vsi \<in> set (snd (convertToCSIGetMetadataAllocatedRequest M s req)) \<longrightarrow>
       getVolSnapshotInfo s (api_Namespace req) (api_SnapshotName req) = Inr vsi
       \<and> DriverName vsi = driverName s
       \<and> snd (convertToCSIGetMetadataAllocatedRequest M s req)
           = [GetVolSnapshotInfo (api_Namespace req) (api_SnapshotName req),
              GetSnapshotterCredentials vsi]"
    by (auto simp: convertToCSIGetMetadataAllocatedRequest_def split: sum.splits if_splits)
  have d1: "\<forall>err. getVolSnapshotInfo s (delta_Namespace dreq) (TargetSnapshotName dreq) = Inl err \<longrightarrow>
       convertToCSIGetMetadataDeltaRequest M s dreq
         = (Inl err, [GetVolSnapshotInfo (delta_Namespace dreq) (TargetSnapshotName dreq)])"
    by (simp add: convertToCSIGetMetadataDeltaRequest_def)
  have d2: "\<forall>vt err. getVolSnapshotInfo s (delta_Namespace dreq) (TargetSnapshotName dreq) = Inr vt
            \<and> getVolSnapshotInfo s (delta_Namespace dreq) (BaseSnapshotName dreq) = Inl err \<longrightarrow>
       convertToCSIGetMetadataDeltaRequest M s dreq
         = (Inl err, [GetVolSnapshotInfo (delta_Namespace dreq) (TargetSnapshotName dreq),
                      GetVolSnapshotInfo (delta_Namespace dreq) (BaseSnapshotName dreq)])"
    by (simp add: convertToCSIGetMetadataDeltaRequest_def)
  have d3: "\<forall>vt vb. getVolSnapshotInfo s (delta_Namespace dreq) (TargetSnapshotName dreq) = Inr vt
            \<and> getVolSnapshotInfo s (delta_Namespace dreq) (BaseSnapshotName dreq) = Inr vb
            \<and> (DriverName vt \<noteq> driverName s \<or> DriverName vb \<noteq> driverName s) \<longrightarrow>
       (\<exists>name. fst (convertToCSIGetMetadataDeltaRequest M s dreq)
                 = Inl (StatusError InvalidArgument
                          (msgInvalidArgumentSnaphotDriverInvalidFmt M name (driverName s))))
       \<and> snd (convertToCSIGetMetadataDeltaRequest M s dreq)
           = [GetVolSnapshotInfo (delta_Namespace dreq) (TargetSnapshotName dreq),
              GetVolSnapshotInfo (delta_Namespace dreq) (BaseSnapshotName dreq)]"
    by (auto simp: convertToCSIGetMetadataDeltaRequest_def)
  have d4: "\<forall>vt vb. getVolSnapshotInfo s (delta_Namespace dreq) (TargetSnapshotName dreq) = Inr vt
            \<and> getVolSnapshotInfo s (delta_Namespace dreq) (BaseSnapshotName dreq) = Inr vb
            \<and> DriverName vt = driverName s \<and> DriverName vb = driverName s
            \<and> SourceVolume vb \<noteq> SourceVolume vt \<longrightarrow>
       convertToCSIGetMetadataDeltaRequest M s dreq
         = (Inl (StatusError InvalidArgument (msgInvalidArgumentDiffSnapshotSourceVolumes M)),
            [GetVolSnapshotInfo (delta_Namespace dreq) (TargetSnapshotName dreq),
             GetVolSnapshotInfo (delta_Namespace dreq) (BaseSnapshotName dreq)])"
    by (simp add: convertToCSIGetMetadataDeltaRequest_def)
  have d5: "\<forall>vsi. GetSnapshotterCredentials vsi \<in> set (snd (convertToCSIGetMetadataDeltaRequest M s dreq)) \<longrightarrow>
       getVolSnapshotInfo s (delta_Namespace dreq) (TargetSnapshotName dreq) = Inr vsi
       \<and> DriverName vsi = driverName s
       \<and> (\<exists>vb. getVolSnapshotInfo s (delta_Namespace dreq) (BaseSnapshotName dreq) = Inr vb
               \<and> DriverName vb = driverName s \<and> SourceVolume vb = SourceVolume vsi)
       \<and> snd (convertToCSIGetMetadataDeltaRequest M s dreq)
           = [GetVolSnapshotInfo (delta_Namespace dreq) (TargetSnapshotName dreq),
              GetVolSnapshotInfo (delta_Namespace dreq) (BaseSnapshotName dreq),
              GetSnapshotterCredentials vsi]"
    by (auto simp: convertToCSIGetMetadataDeltaRequest_def split: sum.splits if_splits)
  from a1 a2 a3 d1 d2 d3 d4 d5 show ?thesis by blast
qed

text \<open>
  Scenario 6 of the spec: the content's driver is \<^verbatim>\<open>driver-unexpected\<close>, the configured
  driver is \<^verbatim>\<open>driver-X\<close>; the conversion fails after the resolution, with no fetch of
  credentials, for an Allocated and for a Delta request.
\<close>

theorem conversion_check_order_witness:
  "(\<exists>vsi. getVolSnapshotInfo unexpectedDriverServer (api_Namespace exampleRequest)
             (api_SnapshotName exampleRequest) = Inr vsi
          \<and> DriverName vsi \<noteq> driverName unexpectedDriverServer)
   \<and> convertToCSIGetMetadataAllocatedRequest exampleMessages unexpectedDriverServer exampleRequest
       = (Inl (StatusError InvalidArgument ''VolumeSnapshot snap-1 does not belong to driver driver-X''),
          [GetVolSnapshotInfo ''ns'' ''snap-1''])
   \<and> snd (convertToCSIGetMetadataDeltaRequest exampleMessages unexpectedDriverServer exampleDeltaRequest)
       = [GetVolSnapshotInfo ''ns'' ''snap-2'', GetVolSnapshotInfo ''ns'' ''snap-1'']"
proof -
  let ?vsi1 = "\<lparr>DriverName = ''driver-unexpected'', SnapshotHandle = ''handle-snap-1'',
                 SourceVolume = ''pvc-a''\<rparr>"
  let ?vsi2 = "\<lparr>DriverName = ''driver-unexpected'', SnapshotHandle = ''handle-snap-2'',
                 SourceVolume = ''pvc-a''\<rparr>"
  have g1: "getVolSnapshotInfo unexpectedDriverServer (api_Namespace exampleRequest)
              (api_SnapshotName exampleRequest) = Inr ?vsi1
            \<and> DriverName ?vsi1 \<noteq> driverName unexpectedDriverServer"
    by (simp add: unexpectedDriverServer_def exampleServer_def exampleRequest_def)
  have g2: "getVolSnapshotInfo unexpectedDriverServer (delta_Namespace exampleDeltaRequest)
              (TargetSnapshotName exampleDeltaRequest) = Inr ?vsi2
            \<and> getVolSnapshotInfo unexpectedDriverServer (delta_Namespace exampleDeltaRequest)
              (BaseSnapshotName exampleDeltaRequest) = Inr ?vsi1
            \<and> (DriverName ?vsi2 \<noteq> driverName unexpectedDriverServer
                 \<or> DriverName ?vsi1 \<noteq> driverName unexpectedDriverServer)"
    by (simp add: unexpectedDriverServer_def exampleServer_def exampleDeltaRequest_def)
  have fmt: "msgInvalidArgumentSnaphotDriverInvalidFmt exampleMessages (api_SnapshotName exampleRequest)
               (driverName unexpectedDriverServer)
             = ''VolumeSnapshot snap-1 does not belong to driver driver-X''"
    by (simp add: exampleMessages_def exampleRequest_def unexpectedDriverServer_def exampleServer_def)
  note inst = conversion_check_order
               [where s = unexpectedDriverServer and M = exampleMessages and req = exampleRequest
                  and dreq = exampleDeltaRequest]
  from inst g1 fmt have c1:
    "convertToCSIGetMetadataAllocatedRequest exampleMessages unexpectedDriverServer exampleRequest
       = (Inl (StatusError InvalidArgument ''VolumeSnapshot snap-1 does not belong to driver driver-X''),
          [GetVolSnapshotInfo (api_Namespace exampleRequest) (api_SnapshotName exampleRequest)])"
    by simp
  from inst g2 have c2:
    "snd (convertToCSIGetMetadataDeltaRequest exampleMessages unexpectedDriverServer exampleDeltaRequest)
       = [GetVolSnapshotInfo (delta_Namespace exampleDeltaRequest) (TargetSnapshotName exampleDeltaRequest),
          GetVolSnapshotInfo (delta_Namespace exampleDeltaRequest) (BaseSnapshotName exampleDeltaRequest)]"
    by blast
  from g1 c1 c2 show ?thesis
    by (auto simp: exampleRequest_def exampleDeltaRequest_def)
qed

subsection \<open>The calls of the emitter in a run of the iterator\<close>






























subsection \<open>The service account a token is created for\<close>

lemma tokensCreated_append:
  "tokensCreated (xs @ ys) = tokensCreated xs @ tokensCreated ys"
  by (induction xs rule: tokensCreated.induct) simp_all

lemma allocated_loop_tokens:
  "getAllocatedBlocks_loop iter st stream = (res, evs, iter', st') \<Longrightarrow> tokensCreated evs = []"
  by (induction stream arbitrary: iter st res evs iter' st')
     (auto simp: Let_def split: option.splits prod.splits if_splits)

lemma changed_loop_tokens:
  "getChangedBlocks_loop iter st stream = (res, evs, iter', st') \<Longrightarrow> tokensCreated evs = []"
  by (induction stream arbitrary: iter st res evs iter' st')
     (auto simp: Let_def split: option.splits prod.splits if_splits)

lemma getAllocatedBlocks_tokens:
  "getAllocatedBlocks g iter st c tok = (res, evs, iter', st') \<Longrightarrow> tokensCreated evs = []"
  by (auto simp: getAllocatedBlocks_def Let_def split: sum.splits prod.splits
           dest: allocated_loop_tokens)

lemma getChangedBlocks_tokens:
  "getChangedBlocks g iter st c tok = (res, evs, iter', st') \<Longrightarrow> tokensCreated evs = []"
  by (auto simp: getChangedBlocks_def Let_def split: sum.splits prod.splits
           dest: changed_loop_tokens)

lemma Run_stream_tokens:
  assumes "Run_stream g iter st c tok = (res, evs, iter', st')"
  shows "tokensCreated evs = []"
proof -
  let ?call = "if PrevSnapshotName iter = [] then getAllocatedBlocks g iter st c tok
               else getChangedBlocks g iter st c tok"
  obtain res1 evs1 iter1 st1 where call: "?call = (res1, evs1, iter1, st1)"
    using prod_cases4 by blast
  then have t: "tokensCreated evs1 = []"
    using getAllocatedBlocks_tokens getChangedBlocks_tokens by (auto split: if_splits)
  from assms call have "evs = evs1 \<or> (\<exists>n r. evs = evs1 @ [EmitDone n r])"
    by (auto simp: Run_stream_def split: go_result.splits option.splits prod.splits)
  with t show ?thesis by (auto simp: tokensCreated_append)
qed

lemma getCSIDriverFromPrimarySnapshot_tokens:
  "tokensCreated (snd (getCSIDriverFromPrimarySnapshot iter)) = []"
  by (auto simp: getCSIDriverFromPrimarySnapshot_def split: sum.splits option.splits)

lemma getSnapshotMetadataServiceCR_tokens:
  "tokensCreated (snd (getSnapshotMetadataServiceCR iter d)) = []"
  by (auto simp: getSnapshotMetadataServiceCR_def split: sum.splits)

lemma getGRPCClient_tokens:
  "tokensCreated (snd (getGRPCClient g ca url)) = []"
  by (auto simp: getGRPCClient_def split: option.splits)

lemma createSecurityToken_tokens:
  "snd (createSecurityToken iter ns sa aud) = [CreateToken ns sa aud (TokenExpirySecs iter)]"
  by (auto simp: createSecurityToken_def split: sum.splits)

text \<open>
  The tokens created in a run whose service account is resolved to \<^verbatim>\<open>(ns, sa)\<close> with
  the calls \<^verbatim>\<open>evs1\<close>: none before the driver and its service record are known, and
  then exactly one, for \<^verbatim>\<open>(ns, sa)\<close>.
\<close>

lemma Run_tokens:
  assumes s1: "(if SAName iter = [] then getDefaultServiceAccount iter
                else (Inr (SANamespace iter, SAName iter), [])) = (Inr (ns, sa), evs1)"
      and t1: "tokensCreated evs1 = []"
  shows "set (tokensCreated (fst (snd (Run g iter st)))) \<subseteq> {(ns, sa)}
       \<and> (\<forall>d sms. fst (if CSIDriver iter = [] then getCSIDriverFromPrimarySnapshot iter
                       else (Inr (CSIDriver iter), [])) = Inr d
                 \<and> fst (getSnapshotMetadataServiceCR iter d) = Inr sms \<longrightarrow>
              CreateToken ns sa (Spec_Audience sms) (TokenExpirySecs iter)
                \<in> set (fst (snd (Run g iter st))))"
proof -
  let ?s2 = "if CSIDriver iter = [] then getCSIDriverFromPrimarySnapshot iter
             else (Inr (CSIDriver iter), [])"
  obtain r2 evs2 where s2: "?s2 = (r2, evs2)" by (cases ?s2) auto
  have t2: "tokensCreated evs2 = []"
    using s2 getCSIDriverFromPrimarySnapshot_tokens[of iter] by (auto split: if_splits)
  show ?thesis
  proof (cases r2)
    case (Inl err)
    with s1 s2 have "fst (snd (Run g iter st)) = evs1 @ evs2" by (simp add: Run_def)
    with t1 t2 s2 Inl show ?thesis by (simp add: tokensCreated_append)
  next
    case (Inr d)
    note r2 = this
    obtain r3 evs3 where s3: "getSnapshotMetadataServiceCR iter d = (r3, evs3)"
      by (cases "getSnapshotMetadataServiceCR iter d") auto
    have t3: "tokensCreated evs3 = []"
      using s3 getSnapshotMetadataServiceCR_tokens[of iter d] by simp
    show ?thesis
    proof (cases r3)
      case (Inl err)
      with s1 s2 r2 s3 have "fst (snd (Run g iter st)) = evs1 @ evs2 @ evs3" by (simp add: Run_def)
      with t1 t2 t3 s2 r2 s3 Inl show ?thesis by (simp add: tokensCreated_append)
    next
      case (Inr sms)
      note r3 = this
      let ?tok = "CreateToken ns sa (Spec_Audience sms) (TokenExpirySecs iter)"
      obtain r4 evs4 where s4: "createSecurityToken iter ns sa (Spec_Audience sms) = (r4, evs4)"
        by (cases "createSecurityToken iter ns sa (Spec_Audience sms)") auto
      have e4: "evs4 = [?tok]"
        using s4 createSecurityToken_tokens[of iter ns sa "Spec_Audience sms"] by simp
      have "\<exists>rest. fst (snd (Run g iter st)) = evs1 @ evs2 @ evs3 @ evs4 @ rest
                   \<and> tokensCreated rest = []"
      proof (cases r4)
        case (Inl err)
        with s1 s2 r2 s3 r3 s4 have "fst (snd (Run g iter st)) = evs1 @ evs2 @ evs3 @ evs4 @ []"
          by (simp add: Run_def)
        then show ?thesis by (intro exI[of _ "[]"]) simp
      next
        case (Inr securityToken)
        note r4 = this
        obtain r5 evs5 where s5: "getGRPCClient g (Spec_CACert sms) (Spec_Address sms) = (r5, evs5)"
          by (cases "getGRPCClient g (Spec_CACert sms) (Spec_Address sms)") auto
        have t5: "tokensCreated evs5 = []"
          using s5 getGRPCClient_tokens[of g "Spec_CACert sms" "Spec_Address sms"] by simp
        show ?thesis
        proof (cases r5)
          case (Inl err)
          with s1 s2 r2 s3 r3 s4 r4 s5
          have "fst (snd (Run g iter st)) = evs1 @ evs2 @ evs3 @ evs4 @ evs5" by (simp add: Run_def)
          with t5 show ?thesis by blast
        next
          case (Inr apiClient)
          obtain res6 evs6 iter6 st6 where
            s6: "Run_stream g iter st apiClient securityToken = (res6, evs6, iter6, st6)"
            using prod_cases4 by blast
          have t6: "tokensCreated evs6 = []"
            using Run_stream_tokens[OF s6] by simp
          from s1 s2 r2 s3 r3 s4 r4 s5 Inr s6
          have "fst (snd (Run g iter st)) = evs1 @ evs2 @ evs3 @ evs4 @ (evs5 @ evs6)"
            by (simp add: Run_def)
          with t5 t6 show ?thesis by (intro exI[of _ "evs5 @ evs6"]) (simp add: tokensCreated_append)
        qed
      qed
      then obtain rest where
        e: "fst (snd (Run g iter st)) = evs1 @ evs2 @ evs3 @ evs4 @ rest" "tokensCreated rest = []"
        by blast
      with t1 t2 t3 e4 s2 r2 s3 r3 show ?thesis by (simp add: tokensCreated_append)
    qed
  qed
qed

text \<open>
  Claim C8. When the service-account name of the iterator is empty and the self-subject
  review returns a username: if the username starts with \<^verbatim>\<open>system:serviceaccount:\<close> and
  splits on colons into exactly four fields, \<^verbatim>\<open>getDefaultServiceAccount\<close> returns the third
  field as the namespace and the fourth as the name, every token the run creates is for
  that namespace and name, and the run does create it once the driver name and the
  driver's service record are obtained; otherwise \<^verbatim>\<open>Run\<close> returns the
  \<^verbatim>\<open>ErrInvalidArgs\<close> error and has made no call but the review.
\<close>

theorem default_service_account:
  assumes "SAName iter = []"
      and "SelfSubjectReviews_Create (Clients iter) = Inr username"
  shows "(strings_HasPrefix username K8sServiceAccountUserNamePrefix
            \<and> length (strings_Split username (CHR '':'')) = 4 \<longrightarrow>
          getDefaultServiceAccount iter
            = (Inr (strings_Split username (CHR '':'') ! 2, strings_Split username (CHR '':'') ! 3),
               [SelfSubjectReviewCreate])
          \<and> set (tokensCreated (fst (snd (Run g iter st))))
               \<subseteq> {(strings_Split username (CHR '':'') ! 2, strings_Split username (CHR '':'') ! 3)}
          \<and> (\<forall>d sms. fst (if CSIDriver iter = [] then getCSIDriverFromPrimarySnapshot iter
                          else (Inr (CSIDriver iter), [])) = Inr d
                    \<and> fst (getSnapshotMetadataServiceCR iter d) = Inr sms \<longrightarrow>
                CreateToken (strings_Split username (CHR '':'') ! 2) (strings_Split username (CHR '':'') ! 3)
                    (Spec_Audience sms) (TokenExpirySecs iter)
                  \<in> set (fst (snd (Run g iter st)))))
       \<and> (\<not> (strings_HasPrefix username K8sServiceAccountUserNamePrefix
               \<and> length (strings_Split username (CHR '':'')) = 4) \<longrightarrow>
          Run g iter st
            = (Returned (Some (Errorf [] ErrInvalidArgs
                  '': ServiceAccount unspecified and default cannot be determined'')),
               [SelfSubjectReviewCreate], iter, st))"
proof (intro conjI impI)
  assume ok: "strings_HasPrefix username K8sServiceAccountUserNamePrefix
               \<and> length (strings_Split username (CHR '':'')) = 4"
  let ?ns = "strings_Split username (CHR '':'') ! 2"
  let ?sa = "strings_Split username (CHR '':'') ! 3"
  from ok assms(2) show g: "getDefaultServiceAccount iter = (Inr (?ns, ?sa), [SelfSubjectReviewCreate])"
    by (simp add: getDefaultServiceAccount_def Let_def)
  with assms(1) have s1: "(if SAName iter = [] then getDefaultServiceAccount iter
                else (Inr (SANamespace iter, SAName iter), [])) = (Inr (?ns, ?sa), [SelfSubjectReviewCreate])"
    by simp
  have t1: "tokensCreated [SelfSubjectReviewCreate] = []" by simp
  from Run_tokens[OF s1 t1, of g st]
  show "set (tokensCreated (fst (snd (Run g iter st)))) \<subseteq> {(?ns, ?sa)}"
    and "\<forall>d sms. fst (if CSIDriver iter = [] then getCSIDriverFromPrimarySnapshot iter
                          else (Inr (CSIDriver iter), [])) = Inr d
                    \<and> fst (getSnapshotMetadataServiceCR iter d) = Inr sms \<longrightarrow>
                CreateToken ?ns ?sa (Spec_Audience sms) (TokenExpirySecs iter)
                  \<in> set (fst (snd (Run g iter st)))"
    by blast+
next
  assume "\<not> (strings_HasPrefix username K8sServiceAccountUserNamePrefix
               \<and> length (strings_Split username (CHR '':'')) = 4)"
  with assms show "Run g iter st
            = (Returned (Some (Errorf [] ErrInvalidArgs
                  '': ServiceAccount unspecified and default cannot be determined'')),
               [SelfSubjectReviewCreate], iter, st)"
    by (auto simp: Run_def getDefaultServiceAccount_def Let_def)
qed

text \<open>
  Scenario 7 of the spec: the review returns \<^verbatim>\<open>system:serviceaccount:ns-a:sa-b\<close> and the
  token is created for \<^verbatim>\<open>(ns-a, sa-b)\<close>. With the username \<^verbatim>\<open>kubernetes-admin\<close> the run
  fails after the review.
\<close>

theorem default_service_account_witness:
  "SAName (NewIterator exampleArgs) = []
   \<and> SelfSubjectReviews_Create (Clients (NewIterator exampleArgs)) = Inr ''system:serviceaccount:ns-a:sa-b''
   \<and> getDefaultServiceAccount (NewIterator exampleArgs)
       = (Inr (''ns-a'', ''sa-b''), [SelfSubjectReviewCreate])
   \<and> CreateToken ''ns-a'' ''sa-b'' ''audience-X'' 600
       \<in> set (fst (snd (Run exampleGRPC (NewIterator exampleArgs) ())))
   \<and> set (tokensCreated (fst (snd (Run exampleGRPC (NewIterator exampleArgs) ())))) \<subseteq> {(''ns-a'', ''sa-b'')}
   \<and> SelfSubjectReviews_Create (Clients (NewIterator exampleArgsAdmin)) = Inr ''kubernetes-admin''
   \<and> Run exampleGRPC (NewIterator exampleArgsAdmin) ()
       = (Returned (Some (Errorf [] ErrInvalidArgs
             '': ServiceAccount unspecified and default cannot be determined'')),
          [SelfSubjectReviewCreate], NewIterator exampleArgsAdmin, ())"
proof -
  let ?iter = "NewIterator exampleArgs"
  let ?u = "''system:serviceaccount:ns-a:sa-b''"
  have a1: "SAName ?iter = []"
    by (simp add: NewIterator_def Let_def Args.defs Iterator.defs exampleArgs_def)
  have a2: "SelfSubjectReviews_Create (Clients ?iter) = Inr ?u"
    by (simp add: NewIterator_def Let_def Args.defs Iterator.defs exampleArgs_def exampleClients_def)
  have sp: "strings_Split ?u (CHR '':'') = [''system'', ''serviceaccount'', ''ns-a'', ''sa-b'']"
    by simp
  have ok: "strings_HasPrefix ?u K8sServiceAccountUserNamePrefix \<and> length (strings_Split ?u (CHR '':'')) = 4"
    by (simp add: strings_HasPrefix_def K8sServiceAccountUserNamePrefix_def)
  have f: "strings_Split ?u (CHR '':'') ! 2 = ''ns-a''" "strings_Split ?u (CHR '':'') ! 3 = ''sa-b''"
    by (simp_all only: sp) simp_all
  have d: "fst (if CSIDriver ?iter = [] then getCSIDriverFromPrimarySnapshot ?iter
                else (Inr (CSIDriver ?iter), [])) = Inr ''driver-X''"
    by (simp add: getCSIDriverFromPrimarySnapshot_def NewIterator_def Let_def Args.defs Iterator.defs
          exampleArgs_def exampleClients_def)
  have s: "fst (getSnapshotMetadataServiceCR ?iter ''driver-X'') = Inr exampleServiceRecord"
    by (simp add: getSnapshotMetadataServiceCR_def NewIterator_def Let_def Args.defs Iterator.defs
          exampleArgs_def exampleClients_def exampleServiceRecord_def)
  have x: "Spec_Audience exampleServiceRecord = ''audience-X'' \<and> TokenExpirySecs ?iter = 600"
    by (simp add: exampleServiceRecord_def NewIterator_def Let_def Args.defs Iterator.defs
          exampleArgs_def DefaultTokenExpirySeconds_def)
  note pos = default_service_account[OF a1 a2, of exampleGRPC "()", THEN conjunct1, rule_format, OF ok]
  from pos f have p1: "getDefaultServiceAccount ?iter = (Inr (''ns-a'', ''sa-b''), [SelfSubjectReviewCreate])"
    and p2: "set (tokensCreated (fst (snd (Run exampleGRPC ?iter ())))) \<subseteq> {(''ns-a'', ''sa-b'')}"
    by simp_all
  from pos[THEN conjunct2, THEN conjunct2, rule_format, of "''driver-X''" exampleServiceRecord] d s f x
  have p3: "CreateToken ''ns-a'' ''sa-b'' ''audience-X'' 600 \<in> set (fst (snd (Run exampleGRPC ?iter ())))"
    by simp
  let ?admin = "NewIterator exampleArgsAdmin"
  have b1: "SAName ?admin = []"
    by (simp add: NewIterator_def Let_def Args.defs Iterator.defs exampleArgsAdmin_def exampleArgs_def)
  have b2: "SelfSubjectReviews_Create (Clients ?admin) = Inr ''kubernetes-admin''"
    by (simp add: NewIterator_def Let_def Args.defs Iterator.defs exampleArgsAdmin_def exampleArgs_def)
  have bad: "\<not> (strings_HasPrefix ''kubernetes-admin'' K8sServiceAccountUserNamePrefix
                 \<and> length (strings_Split ''kubernetes-admin'' (CHR '':'')) = 4)"
    by (simp add: strings_HasPrefix_def K8sServiceAccountUserNamePrefix_def)
  note neg = default_service_account[OF b1 b2, of exampleGRPC "()", THEN conjunct2, rule_format, OF bad]
  from a1 a2 p1 p2 p3 b2 neg show ?thesis by blast
qed

subsection \<open>The comparison of the two devices by the verifier\<close>

lemma zeros_256:
  "0 # replicate 255 0 = replicate 256 (0::byte)"
  "0 # 0 # replicate 254 0 = replicate 256 (0::byte)"
  using replicate_Suc[of 255 "0::byte"] replicate_Suc[of 254 "0::byte"] by simp_all

lemma Read_sourceOneZero:
  "Read sourceOneZero (replicate chunkSize 0)
     = (1, None, replicate chunkSize 0, sourceOneZero\<lparr>offset := Suc 0\<rparr>)"
  "Read (sourceOneZero\<lparr>offset := Suc 0\<rparr>) p = (0, Some IoEOF, p, sourceOneZero\<lparr>offset := Suc 0\<rparr>)"
  by (simp_all add: Read_def sourceOneZero_def chunkSize_def zeros_256)

lemma Read_targetTwoZeros:
  "Read targetTwoZeros (replicate chunkSize 0)
     = (2, None, replicate chunkSize 0, targetTwoZeros\<lparr>offset := 2\<rparr>)"
  "Read (targetTwoZeros\<lparr>offset := 2\<rparr>) p = (0, Some IoEOF, p, targetTwoZeros\<lparr>offset := 2\<rparr>)"
  by (simp_all add: Read_def targetTwoZeros_def chunkSize_def zeros_256)

lemma Seek_start_examples:
  "Seek_start sourceOneZero = (None, sourceOneZero)"
  "Seek_start targetTwoZeros = (None, targetTwoZeros)"
  by (simp_all add: Seek_start_def sourceOneZero_def targetTwoZeros_def)

lemma Done_loop_second_iteration:
  "VerifierEmitter_Done_loop (sourceOneZero\<lparr>offset := Suc 0\<rparr>) (targetTwoZeros\<lparr>offset := 2\<rparr>)
     (replicate chunkSize 0) (replicate chunkSize 0) = Some None"
  by (subst VerifierEmitter_Done_loop.simps) (simp add: Read_sourceOneZero Read_targetTwoZeros)

lemma Done_loop_first_iteration:
  "VerifierEmitter_Done_loop sourceOneZero targetTwoZeros
     (replicate chunkSize 0) (replicate chunkSize 0) = Some None"
  by (subst VerifierEmitter_Done_loop.simps)
     (simp add: Read_sourceOneZero Read_targetTwoZeros Done_loop_second_iteration)

lemma chunksOf_examples:
  "chunksOf chunkSize (contents sourceOneZero) = [[0]]"
  "chunksOf chunkSize (contents targetTwoZeros) = [[0, 0]]"
  by (simp_all add: sourceOneZero_def targetTwoZeros_def chunkSize_def
        chunksOf.simps[of _ "_ # _"] chunksOf.simps[of _ "[]"])

text \<open>
  Claim C10 says that \<^verbatim>\<open>SnapshotMetadataIteratorDone\<close> returns success only if every pair of
  chunks read from the two devices is byte-equal and both devices end on the same
  iteration. The code discards the number of bytes each \<^verbatim>\<open>Read\<close> returns and compares
  the two buffers whole, so a short last chunk is compared together with the bytes the
  buffer held before the read. With a source of one zero byte and a target of two zero
  bytes the contents differ, the chunks read differ (one byte against two), and the
  code returns nil, success: the first reads leave both buffers all zero, the second
  reads both return \<^verbatim>\<open>io.EOF\<close>.
\<close>

theorem verifier_done_accepts_different_devices:
  "contents sourceOneZero \<noteq> contents targetTwoZeros
   \<and> chunksOf chunkSize (contents sourceOneZero) \<noteq> chunksOf chunkSize (contents targetTwoZeros)
   \<and> VerifierEmitter_SnapshotMetadataIteratorDone sourceOneZero targetTwoZeros = Some None"
proof -
  have "contents sourceOneZero \<noteq> contents targetTwoZeros"
    by (simp add: sourceOneZero_def targetTwoZeros_def)
  moreover have "chunksOf chunkSize (contents sourceOneZero) \<noteq> chunksOf chunkSize (contents targetTwoZeros)"
    by (simp add: chunksOf_examples)
  moreover have "VerifierEmitter_SnapshotMetadataIteratorDone sourceOneZero targetTwoZeros = Some None"
    by (simp add: VerifierEmitter_SnapshotMetadataIteratorDone_def Seek_start_examples
          Done_loop_first_iteration)
  ultimately show ?thesis by blast
qed

text \<open>
  On devices of equal contents the comparison succeeds, and on devices of one byte each
  that differ in that byte it reports the mismatch.
\<close>

lemma verifier_done_examples:
  "VerifierEmitter_SnapshotMetadataIteratorDone (deviceOf ''/dev/source'' [1, 2, 3])
       (deviceOf ''/dev/target'' [1, 2, 3]) = Some None"
  "VerifierEmitter_SnapshotMetadataIteratorDone (deviceOf ''/dev/source'' [1])
       (deviceOf ''/dev/target'' [2])
     = Some (Some (OtherError ''source and target device contents do not match''))"
proof -
  let ?s = "deviceOf ''/dev/source'' [1, 2, 3]" and ?t = "deviceOf ''/dev/target'' [1, 2, 3]"
  have r1: "Read ?s (replicate chunkSize 0) = (3, None, [1, 2, 3] @ replicate 253 0, ?s\<lparr>offset := 3\<rparr>)"
           "Read ?t (replicate chunkSize 0) = (3, None, [1, 2, 3] @ replicate 253 0, ?t\<lparr>offset := 3\<rparr>)"
    by (simp_all add: Read_def deviceOf_def chunkSize_def)
  have r2: "\<And>p. Read (?s\<lparr>offset := 3\<rparr>) p = (0, Some IoEOF, p, ?s\<lparr>offset := 3\<rparr>)"
           "\<And>p. Read (?t\<lparr>offset := 3\<rparr>) p = (0, Some IoEOF, p, ?t\<lparr>offset := 3\<rparr>)"
    by (simp_all add: Read_def deviceOf_def)
  have l2: "\<And>p q. VerifierEmitter_Done_loop (?s\<lparr>offset := 3\<rparr>) (?t\<lparr>offset := 3\<rparr>) p q = Some None"
    by (subst VerifierEmitter_Done_loop.simps) (simp add: r2)
  have l1: "VerifierEmitter_Done_loop ?s ?t (replicate chunkSize 0) (replicate chunkSize 0) = Some None"
    by (subst VerifierEmitter_Done_loop.simps) (simp add: r1 l2)
  have sk: "Seek_start ?s = (None, ?s)" "Seek_start ?t = (None, ?t)"
    by (simp_all add: Seek_start_def deviceOf_def)
  show "VerifierEmitter_SnapshotMetadataIteratorDone ?s ?t = Some None"
    by (simp add: VerifierEmitter_SnapshotMetadataIteratorDone_def sk l1)
next
  let ?s = "deviceOf ''/dev/source'' [1]" and ?t = "deviceOf ''/dev/target'' [2]"
  have r1: "Read ?s (replicate chunkSize 0) = (1, None, 1 # replicate 255 0, ?s\<lparr>offset := Suc 0\<rparr>)"
           "Read ?t (replicate chunkSize 0) = (1, None, 2 # replicate 255 0, ?t\<lparr>offset := Suc 0\<rparr>)"
    by (simp_all add: Read_def deviceOf_def chunkSize_def)
  have l1: "VerifierEmitter_Done_loop ?s ?t (replicate chunkSize 0) (replicate chunkSize 0)
              = Some (Some (OtherError ''source and target device contents do not match''))"
    by (subst VerifierEmitter_Done_loop.simps) (simp add: r1)
  have sk: "Seek_start ?s = (None, ?s)" "Seek_start ?t = (None, ?t)"
    by (simp_all add: Seek_start_def deviceOf_def)
  show "VerifierEmitter_SnapshotMetadataIteratorDone ?s ?t
          = Some (Some (OtherError ''source and target device contents do not match''))"
    by (simp add: VerifierEmitter_SnapshotMetadataIteratorDone_def sk l1)
qed

text \<open>Reads at the end of a device, and reads of a full chunk.\<close>


lemma Read_at_end:
  assumes "readFail f (offset f) = None" and "length (contents f) \<le> offset f"
  shows "Read f p = (0, Some IoEOF, p, f)"
  using assms by (simp add: Read_def)

lemma Read_full_chunk:
  assumes "readFail f (offset f) = None" and "offset f + length p \<le> length (contents f)"
      and "0 < length p"
  shows "Read f p = (length p, None, take (length p) (drop (offset f) (contents f)),
                     f\<lparr>offset := offset f + length p\<rparr>)"
proof -
  let ?bs = "take (length p) (drop (offset f) (contents f))"
  from assms have l: "length ?bs = length p" by simp
  from assms have n: "\<not> length (contents f) \<le> offset f" by arith
  from assms(1) n l show ?thesis
    unfolding Read_def Let_def by (simp del: length_take length_drop)
qed

lemma aligned_room:
  assumes "(c::nat) dvd n" and "c dvd off" and "off < n"
  shows "off + c \<le> n"
proof -
  from assms obtain a b where "n = c * a" "off = c * b" by (auto simp: dvd_def)
  with assms(3) have "b < a" by (metis mult_less_cancel1 nat_mult_less_cancel_disj)
  then have "Suc b \<le> a" by simp
  then have "c * Suc b \<le> c * a" by (rule mult_le_mono2)
  with \<open>n = c * a\<close> \<open>off = c * b\<close> show ?thesis by simp
qed

lemma Done_loop_aligned:
  assumes "\<forall>off. readFail s off = None" and "\<forall>off. readFail t off = None"
      and "chunkSize dvd length (contents s)" and "chunkSize dvd length (contents t)"
      and "chunkSize dvd offset s" and "offset t = offset s"
      and "length sb = chunkSize" and "length tb = chunkSize"
  shows "VerifierEmitter_Done_loop s t sb tb
           = Some (if drop (offset s) (contents s) = drop (offset s) (contents t) then None
                   else Some (OtherError ''source and target device contents do not match''))"
  using assms
proof (induction "length (contents s) - offset s" arbitrary: s t sb tb rule: less_induct)
  case less
  have cs: "0 < chunkSize" by (simp add: chunkSize_def)
  let ?o = "offset s"
  show ?case
  proof (cases "length (contents s) \<le> ?o")
    case True
    note send = this
    with less.prems have rs: "Read s sb = (0, Some IoEOF, sb, s)" by (simp add: Read_at_end)
    show ?thesis
    proof (cases "length (contents t) \<le> ?o")
      case True
      with less.prems have rt: "Read t tb = (0, Some IoEOF, tb, t)" by (simp add: Read_at_end)
      from send True show ?thesis
        by (subst VerifierEmitter_Done_loop.simps) (simp add: rs rt)
    next
      case False
      with less.prems aligned_room[of chunkSize "length (contents t)" ?o]
      have room: "offset t + length tb \<le> length (contents t)" by simp
      with less.prems cs have rt: "Read t tb = (length tb, None, take (length tb) (drop (offset t) (contents t)),
                     t\<lparr>offset := offset t + length tb\<rparr>)"
        by (intro Read_full_chunk) simp_all
      from send False show ?thesis
        by (subst VerifierEmitter_Done_loop.simps) (simp add: rs rt)
    qed
  next
    case False
    note smore = this
    with less.prems aligned_room[of chunkSize "length (contents s)" ?o]
    have rooms: "offset s + length sb \<le> length (contents s)" by simp
    with less.prems cs have rs: "Read s sb = (length sb, None, take (length sb) (drop (offset s) (contents s)),
                     s\<lparr>offset := offset s + length sb\<rparr>)"
      by (intro Read_full_chunk) simp_all
    show ?thesis
    proof (cases "length (contents t) \<le> ?o")
      case True
      with less.prems have rt: "Read t tb = (0, Some IoEOF, tb, t)" by (simp add: Read_at_end)
      from smore True show ?thesis
        by (subst VerifierEmitter_Done_loop.simps) (simp add: rs rt)
    next
      case False
      with less.prems aligned_room[of chunkSize "length (contents t)" ?o]
      have roomt: "offset t + length tb \<le> length (contents t)" by simp
      with less.prems cs have rt: "Read t tb = (length tb, None, take (length tb) (drop (offset t) (contents t)),
                     t\<lparr>offset := offset t + length tb\<rparr>)"
        by (intro Read_full_chunk) simp_all
      let ?s' = "s\<lparr>offset := ?o + chunkSize\<rparr>" and ?t' = "t\<lparr>offset := ?o + chunkSize\<rparr>"
      let ?a = "take chunkSize (drop ?o (contents s))" and ?b = "take chunkSize (drop ?o (contents t))"
      have split_s: "drop ?o (contents s) = ?a @ drop (?o + chunkSize) (contents s)"
        by (metis add.commute append_take_drop_id drop_drop)
      have split_t: "drop ?o (contents t) = ?b @ drop (?o + chunkSize) (contents t)"
        by (metis add.commute append_take_drop_id drop_drop)
      have len: "length ?a = chunkSize" "length ?b = chunkSize"
        using rooms roomt less.prems by simp_all
      show ?thesis
      proof (cases "?a = ?b")
        case False
        with split_s split_t len have "drop ?o (contents s) \<noteq> drop ?o (contents t)"
          by (metis append_eq_append_conv)
        with False less.prems show ?thesis
          by (subst VerifierEmitter_Done_loop.simps) (simp add: rs rt)
      next
        case True
        have m: "length (contents ?s') - offset ?s' < length (contents s) - offset s"
          using smore cs by simp
        have ih: "VerifierEmitter_Done_loop ?s' ?t' ?a ?b
           = Some (if drop (offset ?s') (contents ?s') = drop (offset ?s') (contents ?t') then None
                   else Some (OtherError ''source and target device contents do not match''))"
          using less.prems len by (intro less.hyps[OF m]) simp_all
        have eq: "drop ?o (contents s) = drop ?o (contents t)
                   \<longleftrightarrow> drop (?o + chunkSize) (contents s) = drop (?o + chunkSize) (contents t)"
          using split_s split_t True by (metis same_append_eq)
        from True less.prems ih eq show ?thesis
          by (subst VerifierEmitter_Done_loop.simps) (simp add: rs rt)
      qed
    qed
  qed
qed

text \<open>
  Where every read is a full chunk the comparison is of the bytes read: on two devices
  without seek or read errors whose lengths are multiples of 256, the function returns,
  with success when the contents are equal and with the mismatch error otherwise.
\<close>

lemma verifier_done_aligned:
  assumes "seekFail s = None" and "seekFail t = None"
      and "\<forall>off. readFail s off = None" and "\<forall>off. readFail t off = None"
      and "chunkSize dvd length (contents s)" and "chunkSize dvd length (contents t)"
  shows "VerifierEmitter_SnapshotMetadataIteratorDone s t
           = Some (if contents s = contents t then None
                   else Some (OtherError ''source and target device contents do not match''))"
proof -
  have "VerifierEmitter_Done_loop (s\<lparr>offset := 0\<rparr>) (t\<lparr>offset := 0\<rparr>)
          (replicate chunkSize 0) (replicate chunkSize 0)
        = Some (if drop (offset (s\<lparr>offset := 0\<rparr>)) (contents (s\<lparr>offset := 0\<rparr>))
                     = drop (offset (s\<lparr>offset := 0\<rparr>)) (contents (t\<lparr>offset := 0\<rparr>)) then None
                else Some (OtherError ''source and target device contents do not match''))"
    using assms by (intro Done_loop_aligned) simp_all
  with assms show ?thesis
    by (simp add: VerifierEmitter_SnapshotMetadataIteratorDone_def Seek_start_def)
qed

end
